theory Spec2Isabelle
  imports Complex_Main "HOL-Library.Log_Nat"
begin

section \<open>The token marketplace backend (server.js)\<close>

text \<open>
  A shallow embedding of the request handlers of \<^verbatim>\<open>server.js\<close>: token creation,
  sale confirmation against chain evidence, and balance transfer.

  Conventions of the embedding.
  \<^item> A JavaScript number is an IEEE 754 double: \<open>NaN\<close>, an infinity, or a finite
    value, and every arithmetic operation rounds its exact result to the nearest double,
    ties to even. Negative zero is identified with zero; the source never divides by a
    variable, so the two are indistinguishable in it.
  \<^item> Documents of the store have typed fields. A field that may be absent is an
    \<open>option\<close>; \<open>x || d\<close> is written out with the language's truthiness
    (\<open>0\<close>, \<open>NaN\<close>, the empty string, \<open>null\<close> and \<open>undefined\<close> are falsy).
  \<^item> The document store is four maps from document id to document, a request runs
    alone, and every store operation succeeds. The chain client and the clock are inputs
    of a request; all reads of the clock within one request return the same value.
  \<^item> A handler returns its HTTP response and the store it leaves behind.
  \<^item> The handlers that only read the store and the quote handler
    (\<^verbatim>\<open>POST /api/tokens/:id/buy\<close>) are not embedded; a pending sale document in a
    store stands for the quote that wrote it.
\<close>

subsection \<open>Numbers\<close>

text \<open>
  A number of the language. \<open>Fin r\<close> is the finite double whose value is the real
  \<open>r\<close>; the operations below only produce \<open>Fin r\<close> with \<open>r\<close> representable.
\<close>

datatype jnum = NaN | PInf | NInf | Fin real

text \<open>
  Rounding of a real to the nearest double. For \<open>x > 0\<close>, \<open>expo x\<close> is the binary
  exponent \<open>\<lfloor>log\<^sub>2 x\<rfloor>\<close>, computed from bit lengths; \<open>ulp x\<close> is the spacing of the
  doubles around \<open>x\<close> (53 significant bits, least exponent \<open>-1022\<close>, subnormals below);
  \<open>rne\<close> rounds to the nearest integer, ties to even. A result of magnitude
  \<open>2\<^sup>1\<^sup>0\<^sup>2\<^sup>4\<close> or more is an infinity.
\<close>

definition expo :: "real \<Rightarrow> int" where
  "expo x = (if 1 \<le> x then bitlen \<lfloor>x\<rfloor> - 1 else - bitlen (\<lceil>1 / x\<rceil> - 1))"

definition rne :: "real \<Rightarrow> int" where
  "rne q =
     (let f = \<lfloor>q\<rfloor>; d = q - of_int f
      in if d < 1 / 2 then f else if 1 / 2 < d then f + 1 else if even f then f else f + 1)"

definition ulp :: "real \<Rightarrow> real" where
  "ulp x = 2 powi (max (expo x) (- 1022) - 52)"

definition rd_pos :: "real \<Rightarrow> jnum" where
  "rd_pos x =
     (if 1024 \<le> expo x then PInf
      else
        let n = rne (x / ulp x)
        in if expo x = 1023 \<and> n = 2 ^ 53 then PInf else Fin (of_int n * ulp x))"

fun fneg :: "jnum \<Rightarrow> jnum" where
  "fneg NaN = NaN"
| "fneg PInf = NInf"
| "fneg NInf = PInf"
| "fneg (Fin r) = Fin (- r)"

definition rd :: "real \<Rightarrow> jnum" where
  "rd x = (if x = 0 then Fin 0 else if 0 < x then rd_pos x else fneg (rd_pos (- x)))"

text \<open>The operators \<open>+\<close>, \<open>-\<close>, \<open>*\<close> of the language.\<close>

fun fadd :: "jnum \<Rightarrow> jnum \<Rightarrow> jnum" where
  "fadd NaN b = NaN"
| "fadd a NaN = NaN"
| "fadd PInf NInf = NaN"
| "fadd NInf PInf = NaN"
| "fadd PInf b = PInf"
| "fadd NInf b = NInf"
| "fadd a PInf = PInf"
| "fadd a NInf = NInf"
| "fadd (Fin a) (Fin b) = rd (a + b)"

definition fsub :: "jnum \<Rightarrow> jnum \<Rightarrow> jnum" where
  "fsub a b = fadd a (fneg b)"

fun fmul :: "jnum \<Rightarrow> jnum \<Rightarrow> jnum" where
  "fmul NaN b = NaN"
| "fmul a NaN = NaN"
| "fmul (Fin a) (Fin b) = rd (a * b)"
| "fmul (Fin a) PInf = (if a = 0 then NaN else if 0 < a then PInf else NInf)"
| "fmul (Fin a) NInf = (if a = 0 then NaN else if 0 < a then NInf else PInf)"
| "fmul PInf (Fin b) = (if b = 0 then NaN else if 0 < b then PInf else NInf)"
| "fmul NInf (Fin b) = (if b = 0 then NaN else if 0 < b then NInf else PInf)"
| "fmul PInf PInf = PInf"
| "fmul PInf NInf = NInf"
| "fmul NInf PInf = NInf"
| "fmul NInf NInf = PInf"

text \<open>
  \<open>x / d\<close> for a finite divisor \<open>d > 0\<close>; the only division of the source is by the
  literal \<open>1e9\<close>.
\<close>

fun fdiv :: "jnum \<Rightarrow> real \<Rightarrow> jnum" where
  "fdiv NaN d = NaN"
| "fdiv PInf d = PInf"
| "fdiv NInf d = NInf"
| "fdiv (Fin a) d = rd (a / d)"

text \<open>
  The comparisons: \<open>fle a b\<close> is \<open>a <= b\<close> and \<open>flt a b\<close> is \<open>a < b\<close>; both are
  false when an operand is \<open>NaN\<close>. \<open>b >= a\<close> is \<open>fle a b\<close> and \<open>b > a\<close> is \<open>flt a b\<close>.
\<close>

fun fle :: "jnum \<Rightarrow> jnum \<Rightarrow> bool" where
  "fle NaN b = False"
| "fle a NaN = False"
| "fle NInf b = True"
| "fle a PInf = True"
| "fle PInf b = False"
| "fle a NInf = False"
| "fle (Fin a) (Fin b) = (a \<le> b)"

definition flt :: "jnum \<Rightarrow> jnum \<Rightarrow> bool" where
  "flt a b = (fle a b \<and> \<not> fle b a)"

text \<open>\<open>Math.max(a, b)\<close>, and the truthiness of a number.\<close>

definition fmax :: "jnum \<Rightarrow> jnum \<Rightarrow> jnum" where
  "fmax a b = (if a = NaN \<or> b = NaN then NaN else if fle a b then b else a)"

definition truthy_num :: "jnum \<Rightarrow> bool" where
  "truthy_num n = (n \<noteq> NaN \<and> n \<noteq> Fin 0)"

text \<open>
  \<open>Number(x.toFixed(9))\<close>. \<open>toFixed\<close> prints \<open>NaN\<close>, the infinities and every value of
  magnitude \<open>10\<^sup>2\<^sup>1\<close> or more as \<open>String(x)\<close>, which reads back as \<open>x\<close>. Otherwise it
  sets the sign aside and prints \<open>n / 10\<^sup>9\<close> for the integer \<open>n\<close> nearest to the
  exact \<open>|x| \<times> 10\<^sup>9\<close>, the larger one on a tie; \<open>Number\<close> reads the decimal back as the
  nearest double.
\<close>

definition toFixed9 :: "jnum \<Rightarrow> jnum" where
  "toFixed9 x =
     (case x of
        Fin r \<Rightarrow>
          if 10 ^ 21 \<le> \<bar>r\<bar> then Fin r
          else
            let n = \<lfloor>\<bar>r\<bar> * 10 ^ 9 + 1 / 2\<rfloor>
            in if r < 0 then fneg (rd (of_int n / 10 ^ 9)) else rd (of_int n / 10 ^ 9)
      | _ \<Rightarrow> x)"

text \<open>The literal \<open>0.0000001\<close> of the amount comparison, lines 196 and 222.\<close>

definition eps :: jnum where
  "eps = rd (1 / 10 ^ 7)"

subsection \<open>Values and helpers\<close>

text \<open>
  A raw value as a JSON body exposes it: \<open>null\<close>, a missing field, a number literal or a
  string. A number literal \<open>r\<close> is read as the double nearest to \<open>r\<close>. The built-in
  conversion of a string to a number is a parameter \<open>sn\<close> of the model.
\<close>

datatype raw = RNull | RUndefined | RNum real | RStr string

type_synonym str_to_num = "string \<Rightarrow> jnum"

fun to_number :: "str_to_num \<Rightarrow> raw \<Rightarrow> jnum" where
  "to_number sn RNull = Fin 0"
| "to_number sn RUndefined = NaN"
| "to_number sn (RNum r) = rd r"
| "to_number sn (RStr s) = sn s"

fun truthy_raw :: "raw \<Rightarrow> bool" where
  "truthy_raw RNull = False"
| "truthy_raw RUndefined = False"
| "truthy_raw (RNum r) = truthy_num (rd r)"
| "truthy_raw (RStr s) = (s \<noteq> [])"

text \<open>\<^verbatim>\<open>function parseTonValue(v)\<close>, lines 42 to 49.\<close>

definition parseTonValue :: "str_to_num \<Rightarrow> raw \<Rightarrow> jnum" where
  "parseTonValue sn v =
     (if v = RNull \<or> v = RUndefined then Fin 0
      else
        let n = to_number sn v
        in if n = NaN then Fin 0
           else if flt (Fin (10 ^ 12)) n then fdiv n (10 ^ 9) else n)"

text \<open>\<open>a || b\<close> on optional strings and on optional numbers.\<close>

definition truthy_str :: "string option \<Rightarrow> bool" where
  "truthy_str a = (case a of None \<Rightarrow> False | Some s \<Rightarrow> s \<noteq> [])"

definition or_str :: "string option \<Rightarrow> string option \<Rightarrow> string option" where
  "or_str a b = (if truthy_str a then a else b)"

definition or_null :: "string option \<Rightarrow> string option" where
  "or_null a = (if truthy_str a then a else None)"

definition or_number :: "jnum option \<Rightarrow> jnum \<Rightarrow> jnum" where
  "or_number a d = (case a of None \<Rightarrow> d | Some x \<Rightarrow> if truthy_num x then x else d)"

definition or_int :: "int option \<Rightarrow> int \<Rightarrow> int" where
  "or_int a d = (case a of None \<Rightarrow> d | Some x \<Rightarrow> if x = 0 then d else x)"

text \<open>
  \<^verbatim>\<open>function normalizeAddr(a)\<close>, line 50: drop every character outside
  \<open>0-9A-Za-z\<close>, then lowercase.
\<close>

definition is_alnum :: "char \<Rightarrow> bool" where
  "is_alnum c =
     (let n = (of_char c :: nat)
      in (48 \<le> n \<and> n \<le> 57) \<or> (65 \<le> n \<and> n \<le> 90) \<or> (97 \<le> n \<and> n \<le> 122))"

definition to_lower :: "char \<Rightarrow> char" where
  "to_lower c =
     (let n = (of_char c :: nat)
      in if 65 \<le> n \<and> n \<le> 90 then char_of (n + 32) else c)"

definition normalizeAddr :: "string option \<Rightarrow> string" where
  "normalizeAddr a =
     map to_lower (filter is_alnum (case or_str a (Some []) of None \<Rightarrow> [] | Some s \<Rightarrow> s))"

subsection \<open>Documents and the store\<close>

record token =
  tk_type :: string
  tk_name :: string
  tk_ticker :: string
  tk_owner :: string
  tk_createdAt :: int
  totalSupply :: "jnum option"
  remainingSupply :: "jnum option"
  pricePerToken :: "jnum option"
  dynamicPrice :: "jnum option"
  supplyIssued :: "jnum option"

datatype status = Pending | PendingCheck | Confirmed

record sale =
  sl_id :: string
  sl_tokenId :: string
  sl_tokenTicker :: string
  sl_buyer :: string
  sl_seller :: string
  sl_amountTokens :: jnum
  sl_cost :: jnum
  sl_status :: status
  sl_createdAt :: int
  sl_txHash :: "string option"
  sl_confirmedAt :: "int option"

record balance =
  bl_tokenId :: string
  bl_address :: string
  bl_amount :: jnum

datatype hist =
    SaleCreated int string sale
  | BuyConfirmed int string string string string jnum jnum
  | Transfer int string string string jnum

record store =
  tokens :: "string \<rightharpoonup> token"
  sales :: "string \<rightharpoonup> sale"
  balances :: "string \<rightharpoonup> balance"
  history :: "string \<rightharpoonup> hist"

text \<open>The clock (\<open>Date.now()\<close>, milliseconds) and the identifier \<open>uid()\<close> returns.\<close>

record env =
  now_ms :: int
  new_id :: string

text \<open>
  The JSON bodies the handlers send, with the HTTP status: \<open>{ok:true, message}\<close>,
  \<open>{ok:true}\<close>, \<open>{ok:true, id, token}\<close>, \<open>{ok:false, reason}\<close>,
  \<open>{ok:false, reason, foundAmount, sender}\<close> and \<open>{error}\<close>.
\<close>

datatype body =
    OkMessage string
  | OkTrue
  | OkToken string token
  | NotOk string
  | NotOkFound string jnum "string option"
  | Err string

datatype response = Resp nat body

subsection \<open>Chain data\<close>

record msg =
  msg_value :: raw
  msg_source :: "string option"
  msg_source_address :: "string option"
  msg_hash :: "string option"

record tx =
  tx_utime :: "int option"
  tx_time :: "int option"
  tx_in_msg :: "msg option"
  tx_in_message :: "msg option"
  tx_value :: raw
  tx_source :: "string option"
  tx_id :: "string option"
  tx_hash :: "string option"

text \<open>
  What \<open>axios.get(url).catch(() => ({ data: null }))\<close> yields: \<open>None\<close> for
  \<open>data: null\<close> (the request failed), else the reply's \<open>ok\<close> and \<open>result\<close>.
\<close>

record 'a reply =
  rp_ok :: bool
  rp_result :: "'a option"

record chain =
  getTransaction :: "string \<Rightarrow> tx reply option"
  getTransactions :: "string \<Rightarrow> tx list reply option"

subsection \<open>Token creation\<close>

text \<open>\<^verbatim>\<open>POST /api/tokens/create\<close>, lines 74 to 95.\<close>

record create_req =
  cr_type :: string
  cr_name :: string
  cr_ticker :: string
  cr_owner :: "string option"
  cr_totalSupply :: raw
  cr_pricePerToken :: raw
  cr_dynamicPrice :: raw

definition create_token ::
  "str_to_num \<Rightarrow> string \<Rightarrow> env \<Rightarrow> create_req \<Rightarrow> store \<Rightarrow> response \<times> store" where
  "create_token sn owner_wallet e rq s =
     (if cr_type rq = [] \<or> cr_name rq = [] \<or> cr_ticker rq = [] then (Resp 400 (Err ''missing''), s)
      else
        let ident = new_id e;
            token = \<lparr> tk_type = cr_type rq, tk_name = cr_name rq, tk_ticker = cr_ticker rq,
                      tk_owner = (case or_str (cr_owner rq) (Some owner_wallet) of
                                    None \<Rightarrow> [] | Some w \<Rightarrow> w),
                      tk_createdAt = now_ms e,
                      totalSupply = None, remainingSupply = None, pricePerToken = None,
                      dynamicPrice = None, supplyIssued = None \<rparr>
        in if cr_type rq = ''listing'' then
             (if \<not> truthy_raw (cr_totalSupply rq) \<or> \<not> truthy_raw (cr_pricePerToken rq)
              then (Resp 400 (Err ''listing_missing''), s)
              else
                let token' = token \<lparr> totalSupply := Some (to_number sn (cr_totalSupply rq)),
                                      remainingSupply := Some (to_number sn (cr_totalSupply rq)),
                                      pricePerToken := Some (to_number sn (cr_pricePerToken rq)) \<rparr>
                in (Resp 200 (OkToken ident token'), s \<lparr> tokens := (tokens s)(ident \<mapsto> token') \<rparr>))
           else
             let token' = token \<lparr> dynamicPrice :=
                                     Some (if truthy_raw (cr_dynamicPrice rq)
                                           then to_number sn (cr_dynamicPrice rq)
                                           else rd (1 / 10)),
                                   supplyIssued := Some (Fin 0) \<rparr>
             in (Resp 200 (OkToken ident token'), s \<lparr> tokens := (tokens s)(ident \<mapsto> token') \<rparr>))"

subsection \<open>Sale confirmation\<close>

text \<open>
  The token update of \<open>finalize\<close>, lines 160 to 171, for a purchase of \<open>amt\<close> tokens.
  The literals \<open>0.1\<close> and \<open>0.005\<close> are the doubles nearest to them.
\<close>

definition apply_purchase :: "token \<Rightarrow> jnum \<Rightarrow> token" where
  "apply_purchase token amt =
     (if tk_type token = ''listing'' then
        let newRem = fmax (Fin 0) (fsub (or_number (remainingSupply token) (Fin 0)) amt)
        in token \<lparr> remainingSupply := Some newRem \<rparr>
      else
        let issued = fadd (or_number (supplyIssued token) (Fin 0)) amt;
            oldPrice = or_number (dynamicPrice token) (rd (1 / 10));
            alpha = rd (5 / 1000);
            factor = fadd (Fin 1) (fmul alpha amt);
            newPrice = toFixed9 (fmul oldPrice factor)
        in token \<lparr> supplyIssued := Some issued, dynamicPrice := Some newPrice \<rparr>)"

definition balKey :: "string \<Rightarrow> string \<Rightarrow> string" where
  "balKey tokenId addr = tokenId @ ''__'' @ addr"

text \<open>
  The amount read from a balance document, \<open>snap.exists ? Number(snap.data().amount || 0) : 0\<close>.
\<close>

definition balance_amount :: "store \<Rightarrow> string \<Rightarrow> jnum" where
  "balance_amount s key =
     (case balances s key of None \<Rightarrow> Fin 0 | Some b \<Rightarrow> or_number (Some (bl_amount b)) (Fin 0))"

text \<open>\<^verbatim>\<open>async function finalize(foundHash)\<close>, lines 154 to 181.\<close>

definition finalize :: "env \<Rightarrow> string \<Rightarrow> sale \<Rightarrow> string option \<Rightarrow> store \<Rightarrow> response \<times> store" where
  "finalize e saleId sale foundHash s =
     (let s1 = s \<lparr> sales := (sales s)(saleId \<mapsto>
                  sale \<lparr> sl_status := Confirmed, sl_txHash := or_null foundHash,
                         sl_confirmedAt := Some (now_ms e) \<rparr>) \<rparr>;
          s2 = (case tokens s1 (sl_tokenId sale) of
                  None \<Rightarrow> s1
                | Some token \<Rightarrow>
                    s1 \<lparr> tokens := (tokens s1)(sl_tokenId sale \<mapsto>
                                      apply_purchase token (sl_amountTokens sale)) \<rparr>);
          key = balKey (sl_tokenId sale) (sl_buyer sale);
          prev = balance_amount s2 key;
          s3 = s2 \<lparr> balances := (balances s2)(key \<mapsto>
                  \<lparr> bl_tokenId = sl_tokenId sale, bl_address = sl_buyer sale,
                    bl_amount = fadd prev (sl_amountTokens sale) \<rparr>) \<rparr>;
          s4 = s3 \<lparr> history := (history s3)(new_id e \<mapsto>
                  BuyConfirmed (now_ms e) saleId (sl_tokenId sale) (sl_buyer sale)
                    (sl_seller sale) (sl_amountTokens sale) (sl_cost sale)) \<rparr>
      in (Resp 200 (OkMessage ''sale_confirmed''), s4))"

text \<open>
  The incoming message and the value of a transaction, lines 190 to 194 and again
  lines 218 to 221.
\<close>

definition in_msg_of :: "tx \<Rightarrow> msg option" where
  "in_msg_of t = (case tx_in_msg t of Some m \<Rightarrow> Some m | None \<Rightarrow> tx_in_message t)"

definition tx_val :: "str_to_num \<Rightarrow> tx \<Rightarrow> jnum" where
  "tx_val sn t =
     (case in_msg_of t of
        Some m \<Rightarrow>
          if truthy_raw (msg_value m) then parseTonValue sn (msg_value m)
          else if truthy_raw (tx_value t) then parseTonValue sn (tx_value t)
          else Fin 0
      | None \<Rightarrow> if truthy_raw (tx_value t) then parseTonValue sn (tx_value t) else Fin 0)"

text \<open>The amount check \<open>val >= (Number(sale.cost) - 0.0000001)\<close>, line 196.\<close>

definition okAmount :: "str_to_num \<Rightarrow> sale \<Rightarrow> tx \<Rightarrow> bool" where
  "okAmount sn sale t = fle (fsub (sl_cost sale) eps) (tx_val sn t)"

text \<open>The sender of the direct-hash path, line 195, and its check, line 197.\<close>

definition direct_sender :: "tx \<Rightarrow> string option" where
  "direct_sender t =
     (case in_msg_of t of
        None \<Rightarrow> None
      | Some m \<Rightarrow>
          if truthy_str (or_str (msg_source m) (msg_source_address m))
          then or_str (msg_source m) (msg_source_address m) else None)"

definition okSender :: "sale \<Rightarrow> string option \<Rightarrow> bool" where
  "okSender sale sender =
     (if truthy_str sender then normalizeAddr sender = normalizeAddr (Some (sl_buyer sale))
      else True)"

text \<open>The sender of the scan path, line 224.\<close>

definition scan_sender :: "tx \<Rightarrow> string option" where
  "scan_sender t =
     (let a = (case in_msg_of t of
                 None \<Rightarrow> None
               | Some m \<Rightarrow> or_str (msg_source m) (msg_source_address m))
      in or_null (or_str a (tx_source t)))"

text \<open>The timestamp of a transaction, line 215, and the age test of line 217.\<close>

definition utime_of :: "tx \<Rightarrow> int" where
  "utime_of t = or_int (tx_utime t) (or_int (tx_time t) 0)"

definition too_old :: "int \<Rightarrow> tx \<Rightarrow> bool" where
  "too_old now t = (utime_of t \<noteq> 0 \<and> now - utime_of t > 60 * 60 * 24)"

text \<open>The loop of lines 213 to 229: the transaction \<open>matched\<close> holds when it ends.\<close>

fun scan :: "str_to_num \<Rightarrow> int \<Rightarrow> sale \<Rightarrow> tx list \<Rightarrow> tx option" where
  "scan sn now sale [] = None"
| "scan sn now sale (t # ts) =
     (if too_old now t then scan sn now sale ts
      else if fle (fsub (sl_cost sale) eps) (tx_val sn t) then
        (let sender = scan_sender t
         in if \<not> truthy_str sender \<or> normalizeAddr sender = normalizeAddr (Some (sl_buyer sale))
            then Some t
            else Some t)
      else scan sn now sale ts)"

definition found_hash :: "tx \<Rightarrow> string option" where
  "found_hash t =
     or_null (or_str (tx_id t) (or_str (tx_hash t)
       (case tx_in_msg t of None \<Rightarrow> None | Some m \<Rightarrow> msg_hash m)))"

definition set_status :: "string \<Rightarrow> sale \<Rightarrow> status \<Rightarrow> store \<Rightarrow> store" where
  "set_status saleId sale st s = s \<lparr> sales := (sales s)(saleId \<mapsto> sale \<lparr> sl_status := st \<rparr>) \<rparr>"

text \<open>Lines 204 to 235: the scan of the seller's recent transactions.\<close>

definition scan_path :: "str_to_num \<Rightarrow> env \<Rightarrow> chain \<Rightarrow> string \<Rightarrow> sale \<Rightarrow> store \<Rightarrow> response \<times> store" where
  "scan_path sn e ch saleId sale s =
     (case getTransactions ch (sl_seller sale) of
        None \<Rightarrow> (Resp 200 (NotOk ''txs_unavailable''), set_status saleId sale PendingCheck s)
      | Some r \<Rightarrow>
          if \<not> rp_ok r then (Resp 200 (NotOk ''txs_unavailable''), set_status saleId sale PendingCheck s)
          else
            let txs = (case rp_result r of None \<Rightarrow> [] | Some l \<Rightarrow> l)
            in (case scan sn (now_ms e div 1000) sale txs of
                  None \<Rightarrow> (Resp 200 (NotOk ''not_found''), set_status saleId sale PendingCheck s)
                | Some matched \<Rightarrow> finalize e saleId sale (found_hash matched) s))"

text \<open>
  Lines 184 to 202: the lookup by hash. \<open>None\<close> when the handler goes on to the scan
  (no transaction found), else the response it returns.
\<close>

definition direct_path ::
  "str_to_num \<Rightarrow> env \<Rightarrow> chain \<Rightarrow> string \<Rightarrow> sale \<Rightarrow> string \<Rightarrow> store \<Rightarrow> (response \<times> store) option" where
  "direct_path sn e ch saleId sale txHash s =
     (case getTransaction ch txHash of
        None \<Rightarrow> None
      | Some r \<Rightarrow>
          (case (rp_ok r, rp_result r) of
             (True, Some t) \<Rightarrow>
               let val = tx_val sn t;
                   sender = direct_sender t
               in if okAmount sn sale t \<and> okSender sale sender
                  then Some (finalize e saleId sale (Some txHash) s)
                  else Some (Resp 400 (NotOkFound ''tx_mismatch'' val sender), s)
           | _ \<Rightarrow> None))"

text \<open>\<^verbatim>\<open>POST /api/sales/:saleId/confirm\<close>, lines 145 to 240.\<close>

definition confirmSale ::
  "str_to_num \<Rightarrow> env \<Rightarrow> chain \<Rightarrow> string \<Rightarrow> string option \<Rightarrow> store \<Rightarrow> response \<times> store" where
  "confirmSale sn e ch saleId txHash s =
     (case sales s saleId of
        None \<Rightarrow> (Resp 404 (Err ''sale_not_found''), s)
      | Some sale \<Rightarrow>
          if sl_status sale = Confirmed then (Resp 200 (OkMessage ''already_confirmed''), s)
          else
            (case (case txHash of
                     None \<Rightarrow> None
                   | Some h \<Rightarrow> if h \<noteq> [] then direct_path sn e ch saleId sale h s else None) of
               Some res \<Rightarrow> res
             | None \<Rightarrow> scan_path sn e ch saleId sale s))"

subsection \<open>Transfer\<close>

text \<open>\<^verbatim>\<open>POST /api/transfer\<close>, lines 247 to 268.\<close>

record transfer_req =
  tr_tokenId :: string
  tr_from :: string
  tr_to :: string
  tr_amount :: raw

definition transfer :: "str_to_num \<Rightarrow> env \<Rightarrow> transfer_req \<Rightarrow> store \<Rightarrow> response \<times> store" where
  "transfer sn e rq s =
     (if tr_tokenId rq = [] \<or> tr_from rq = [] \<or> tr_to rq = [] \<or> \<not> truthy_raw (tr_amount rq)
      then (Resp 400 (Err ''missing''), s)
      else
        let amt = to_number sn (tr_amount rq)
        in if fle amt (Fin 0) then (Resp 400 (Err ''bad_amount''), s)
           else
             let fromKey = balKey (tr_tokenId rq) (tr_from rq);
                 toKey = balKey (tr_tokenId rq) (tr_to rq);
                 have = balance_amount s fromKey
             in if flt have amt then (Resp 400 (Err ''insufficient''), s)
                else
                  let s1 = s \<lparr> balances := (balances s)(fromKey \<mapsto>
                             \<lparr> bl_tokenId = tr_tokenId rq, bl_address = tr_from rq,
                               bl_amount = fsub have amt \<rparr>) \<rparr>;
                      prev = balance_amount s1 toKey;
                      s2 = s1 \<lparr> balances := (balances s1)(toKey \<mapsto>
                             \<lparr> bl_tokenId = tr_tokenId rq, bl_address = tr_to rq,
                               bl_amount = fadd prev amt \<rparr>) \<rparr>;
                      s3 = s2 \<lparr> history := (history s2)(new_id e \<mapsto>
                             Transfer (now_ms e) (tr_tokenId rq) (tr_from rq) (tr_to rq) amt) \<rparr>
                  in (Resp 200 OkTrue, s3))"

subsection \<open>Notions used to state the properties\<close>

text \<open>The real \<open>r\<close> is the value of a double: rounding leaves it as it is.\<close>

definition is_double :: "real \<Rightarrow> bool" where
  "is_double r = (rd r = Fin r)"

text \<open>The number \<open>n\<close> exceeds the real \<open>x\<close>.\<close>

definition above :: "jnum \<Rightarrow> real \<Rightarrow> bool" where
  "above n x = (case n of Fin c \<Rightarrow> x < c | PInf \<Rightarrow> True | _ \<Rightarrow> False)"

text \<open>A raw value with no numeric reading: \<open>null\<close>, \<open>undefined\<close>, or converted to \<open>NaN\<close>.\<close>

definition no_number :: "str_to_num \<Rightarrow> raw \<Rightarrow> bool" where
  "no_number sn v = (v = RNull \<or> v = RUndefined \<or> to_number sn v = NaN)"

text \<open>A transaction none of whose value fields has a numeric reading.\<close>

definition lacks_value :: "str_to_num \<Rightarrow> tx \<Rightarrow> bool" where
  "lacks_value sn t =
     (no_number sn (tx_value t) \<and>
      (case in_msg_of t of None \<Rightarrow> True | Some m \<Rightarrow> no_number sn (msg_value m)))"

text \<open>
  A transfer request that passes the checks of lines 250 and 252: the four fields are
  present and \<open>amt <= 0\<close> is false.
\<close>

definition validated :: "str_to_num \<Rightarrow> transfer_req \<Rightarrow> bool" where
  "validated sn rq =
     (tr_tokenId rq \<noteq> [] \<and> tr_from rq \<noteq> [] \<and> tr_to rq \<noteq> [] \<and> truthy_raw (tr_amount rq) \<and>
      \<not> fle (to_number sn (tr_amount rq)) (Fin 0))"

text \<open>The direct lookup of a hash yielded no transaction: the request failed, or the reply
  is not \<open>ok\<close>, or it has no \<open>result\<close>.\<close>

definition lookup_failed :: "chain \<Rightarrow> string \<Rightarrow> bool" where
  "lookup_failed ch h =
     (case getTransaction ch h of None \<Rightarrow> True | Some r \<Rightarrow> \<not> rp_ok r \<or> rp_result r = None)"

text \<open>The query for the seller's recent transactions failed or its reply is not \<open>ok\<close>.\<close>

definition txs_unavailable :: "chain \<Rightarrow> string \<Rightarrow> bool" where
  "txs_unavailable ch seller =
     (case getTransactions ch seller of None \<Rightarrow> True | Some r \<Rightarrow> \<not> rp_ok r)"

text \<open>The transactions the query returned, in its order.\<close>

definition recent_txs :: "chain \<Rightarrow> string \<Rightarrow> tx list" where
  "recent_txs ch seller =
     (case getTransactions ch seller of
        None \<Rightarrow> []
      | Some r \<Rightarrow> (case rp_result r of None \<Rightarrow> [] | Some l \<Rightarrow> l))"

text \<open>
  The store that step 3 of the confirmation leaves behind, written out document by
  document: the sale is marked confirmed with the hash and the confirmation time; the
  sale's token, when it exists, has the purchase applied; the buyer's balance for the
  token is its previous amount (\<open>0\<close> without a document) plus the sale's amount; and a
  \<open>buy_confirmed\<close> entry is stored under the fresh identifier. Every other document is
  as before.
\<close>

definition finalized :: "env \<Rightarrow> string \<Rightarrow> sale \<Rightarrow> string option \<Rightarrow> store \<Rightarrow> store" where
  "finalized e saleId sale h s =
     \<lparr> tokens = (\<lambda>i. if i = sl_tokenId sale
                      then map_option (\<lambda>tk. apply_purchase tk (sl_amountTokens sale)) (tokens s i)
                      else tokens s i),
       sales = (\<lambda>i. if i = saleId
                     then Some (sale \<lparr> sl_status := Confirmed, sl_txHash := or_null h,
                                      sl_confirmedAt := Some (now_ms e) \<rparr>)
                     else sales s i),
       balances = (\<lambda>k. if k = balKey (sl_tokenId sale) (sl_buyer sale)
                        then Some \<lparr> bl_tokenId = sl_tokenId sale, bl_address = sl_buyer sale,
                                    bl_amount = fadd (balance_amount s k) (sl_amountTokens sale) \<rparr>
                        else balances s k),
       history = (\<lambda>i. if i = new_id e
                       then Some (BuyConfirmed (now_ms e) saleId (sl_tokenId sale) (sl_buyer sale)
                                    (sl_seller sale) (sl_amountTokens sale) (sl_cost sale))
                       else history s i) \<rparr>"

text \<open>
  The token after a sequence of confirmed purchases, each applied by \<open>finalize\<close> through
  \<open>apply_purchase\<close>; the remaining supply as the handlers read it
  (\<open>token.remainingSupply || 0\<close>); and the token a creation request answered with.
\<close>

definition purchases :: "token \<Rightarrow> jnum list \<Rightarrow> token" where
  "purchases tok amts = foldl apply_purchase tok amts"

definition rem_of :: "token \<Rightarrow> jnum" where
  "rem_of tok = or_number (remainingSupply tok) (Fin 0)"

definition created :: "response \<times> store \<Rightarrow> token option" where
  "created r = (case fst r of Resp c (OkToken i tok) \<Rightarrow> Some tok | _ \<Rightarrow> None)"

subsection \<open>Sample data\<close>

text \<open>
  Concrete inputs on which the properties below are exercised: a conversion of strings to
  numbers, two clock readings, tokens and creation requests, sales, stores, and chain
  replies.
\<close>

text \<open>
  A conversion of strings to numbers that agrees with the built-in one on the empty string
  and on strings of decimal digits, and is \<open>NaN\<close> elsewhere, as the built-in one is on
  \<open>'abc'\<close>; the examples below use it on such strings only.
\<close>

definition is_digit :: "char \<Rightarrow> bool" where
  "is_digit c = (let n = (of_char c :: nat) in 48 \<le> n \<and> n \<le> 57)"

definition dec_digits :: str_to_num where
  "dec_digits s =
     (if list_all is_digit s
      then rd (of_nat (foldl (\<lambda>a c. 10 * a + (of_char c - 48)) 0 s))
      else NaN)"

definition env0 :: env where
  "env0 = \<lparr> now_ms = 1700000000000, new_id = ''id_h1'' \<rparr>"

definition env1 :: env where
  "env1 = \<lparr> now_ms = 1700000001000, new_id = ''id_h2'' \<rparr>"

definition token_l :: token where
  "token_l = \<lparr> tk_type = ''listing'', tk_name = ''Gold'', tk_ticker = ''GLD'',
               tk_owner = ''EQseller'', tk_createdAt = 1699990000000,
               totalSupply = Some (Fin 10), remainingSupply = Some (Fin 10),
               pricePerToken = Some (Fin (5 / 2)),
               dynamicPrice = None, supplyIssued = None \<rparr>"

definition token_1 :: token where
  "token_1 = token_l \<lparr> totalSupply := Some (Fin 1), remainingSupply := Some (Fin 1) \<rparr>"

definition token_u :: token where
  "token_u = \<lparr> tk_type = ''user'', tk_name = ''Dust'', tk_ticker = ''DST'',
               tk_owner = ''EQseller'', tk_createdAt = 1700000000000,
               totalSupply = None, remainingSupply = None, pricePerToken = None,
               dynamicPrice = Some (rd (1 / 10 ^ 10)), supplyIssued = Some (Fin 0) \<rparr>"

definition token_z :: token where
  "token_z = apply_purchase token_u (Fin 1)"

definition token_p :: token where
  "token_p = token_u \<lparr> dynamicPrice := Some (rd (1010025 / 10 ^ 7)) \<rparr>"

definition token_n :: token where
  "token_n = token_u \<lparr> dynamicPrice := Some NaN \<rparr>"

definition req_l :: create_req where
  "req_l = \<lparr> cr_type = ''listing'', cr_name = ''Gold'', cr_ticker = ''GLD'',
             cr_owner = Some ''EQseller'', cr_totalSupply = RNum 10,
             cr_pricePerToken = RNum (5 / 2), cr_dynamicPrice = RUndefined \<rparr>"

definition req_neg :: create_req where
  "req_neg = req_l \<lparr> cr_totalSupply := RNum (- 5) \<rparr>"

definition req_u :: create_req where
  "req_u = \<lparr> cr_type = ''user'', cr_name = ''Dust'', cr_ticker = ''DST'',
             cr_owner = Some ''EQseller'', cr_totalSupply = RUndefined,
             cr_pricePerToken = RUndefined, cr_dynamicPrice = RNum (1 / 10 ^ 10) \<rparr>"

definition sale_p :: sale where
  "sale_p = \<lparr> sl_id = ''s1'', sl_tokenId = ''t1'', sl_tokenTicker = ''GLD'',
              sl_buyer = ''EQ-Buyer_1'', sl_seller = ''EQseller'', sl_amountTokens = Fin 4,
              sl_cost = Fin 10, sl_status = Pending, sl_createdAt = 1699999000000,
              sl_txHash = None, sl_confirmedAt = None \<rparr>"


definition sale_6a :: sale where
  "sale_6a = sale_p \<lparr> sl_amountTokens := Fin 6, sl_cost := Fin 15 \<rparr>"

definition sale_6b :: sale where
  "sale_6b = sale_6a \<lparr> sl_id := ''s2'' \<rparr>"

definition req_t :: transfer_req where
  "req_t = \<lparr> tr_tokenId = ''t1'', tr_from = ''EQalice'', tr_to = ''EQbob'', tr_amount = RNum 5 \<rparr>"

definition req_m :: transfer_req where
  "req_m = req_t \<lparr> tr_to := [] \<rparr>"

definition store_e :: store where
  "store_e = \<lparr> tokens = Map.empty, sales = Map.empty, balances = Map.empty,
               history = Map.empty \<rparr>"

definition store0 :: store where
  "store0 = \<lparr> tokens = [''t1'' \<mapsto> token_l], sales = [''s1'' \<mapsto> sale_p],
              balances = Map.empty, history = Map.empty \<rparr>"

definition store_c :: store where
  "store_c = store0 \<lparr> sales := [''s1'' \<mapsto> sale_p \<lparr> sl_status := Confirmed \<rparr>] \<rparr>"

definition store_b :: store where
  "store_b = store0 \<lparr> balances := [''t1__EQalice'' \<mapsto>
       \<lparr> bl_tokenId = ''t1'', bl_address = ''EQalice'', bl_amount = Fin 3 \<rparr>] \<rparr>"

definition store_2 :: store where
  "store_2 = store0 \<lparr> sales := [''s1'' \<mapsto> sale_6a, ''s2'' \<mapsto> sale_6b] \<rparr>"


definition store_z :: store where
  "store_z = store0 \<lparr> tokens := [''t1'' \<mapsto> token_z] \<rparr>"

text \<open>A transaction with an incoming message of the given value and source.\<close>

definition mk_tx :: "raw \<Rightarrow> string option \<Rightarrow> int option \<Rightarrow> tx" where
  "mk_tx v src ut =
     \<lparr> tx_utime = ut, tx_time = None,
       tx_in_msg = Some \<lparr> msg_value = v, msg_source = src, msg_source_address = None,
                          msg_hash = Some ''mh1'' \<rparr>,
       tx_in_message = None, tx_value = RUndefined, tx_source = None,
       tx_id = None, tx_hash = Some ''h1'' \<rparr>"

definition tx_ok :: tx where
  "tx_ok = mk_tx (RNum 10) (Some ''eq_buyer1'') (Some 1699999990)"

definition tx_low :: tx where
  "tx_low = mk_tx (RNum (9999999 / 1000000)) (Some ''eq_buyer1'') (Some 1699999990)"

text \<open>The literal \<open>4.9999998999999999\<close>, read as the double just below \<open>5 - 10\<^sup>-\<^sup>7\<close>.\<close>

definition tx_near :: tx where
  "tx_near = mk_tx (RNum (49999998999999999 / 10 ^ 16)) None (Some 1699999990)"

definition tx_other :: tx where
  "tx_other = mk_tx (RNum 10) (Some ''EQother'') (Some 1699999990)"

definition tx_big :: tx where
  "tx_big = mk_tx (RStr ''2000000000000'') None (Some 1699999990)"

definition tx_nan :: tx where
  "tx_nan = mk_tx (RStr ''abc'') None (Some 1699999990)"

definition tx_epoch :: tx where
  "tx_epoch = mk_tx (RNum 10) None (Some 0)"

definition tx_stale :: tx where
  "tx_stale = mk_tx (RNum 10) None (Some 1600000000)"

definition tx_15 :: tx where
  "tx_15 = mk_tx (RNum 15) None (Some 1699999990)"


definition listed :: "tx list \<Rightarrow> tx list reply" where
  "listed ts = \<lparr> rp_ok = True, rp_result = Some ts \<rparr>"

definition mk_chain :: "tx reply option \<Rightarrow> tx list reply option \<Rightarrow> chain" where
  "mk_chain r rs = \<lparr> getTransaction = (\<lambda>h. r), getTransactions = (\<lambda>a. rs) \<rparr>"

definition chain_15 :: chain where
  "chain_15 = mk_chain None (Some (listed [tx_15]))"

section \<open>Properties\<close>

subsection \<open>Rounding to a double\<close>

lemma pow2_pos: "0 < (2::real) powi e"
  by simp

lemma pow2_add: "(2::real) powi (a + b) = 2 powi a * 2 powi b"
  by (simp add: power_int_add)

lemma pow2_split: "a + b = c \<Longrightarrow> (2::real) powi a * 2 powi b = 2 powi c"
  using pow2_add [of a b] by simp

lemma pow2_mono: "a \<le> b \<Longrightarrow> (2::real) powi a \<le> 2 powi b"
  by (simp add: power_int_increasing)

lemma pow2_less: "a < b \<Longrightarrow> (2::real) powi a < 2 powi b"
  by (simp add: power_int_strict_increasing)

lemma pow2_less_cancel: "(2::real) powi a < 2 powi b \<Longrightarrow> a < b"
  using pow2_mono [of b a] by (cases "a < b") auto

lemma pow2_le_cancel: "(2::real) powi a \<le> 2 powi b \<Longrightarrow> a \<le> b"
  using pow2_less [of b a] by (cases "a \<le> b") auto

lemma pow2_nat: "0 \<le> k \<Longrightarrow> (2::real) powi k = 2 ^ nat k"
  by (simp add: power_int_nonneg_exp)

lemma pow2_neg: "0 \<le> k \<Longrightarrow> (2::real) powi (- k) = 1 / 2 ^ nat k"
  by (simp add: power_int_minus_divide power_int_nonneg_exp)

lemma expo_bounds:
  assumes "0 < x"
  shows "2 powi expo x \<le> x \<and> x < 2 powi (expo x + 1)"
proof (cases "1 \<le> x")
  case True
  let ?n = "\<lfloor>x\<rfloor>"
  have n: "0 < ?n" using True by simp
  have b1: "1 \<le> bitlen ?n" using n by (simp add: bitlen_alt_def)
  from bitlen_bounds [OF n]
  have lo: "2 ^ nat (bitlen ?n - 1) \<le> ?n" and hi: "?n < 2 ^ nat (bitlen ?n)" by simp_all
  have "(2::real) powi (bitlen ?n - 1) = of_int (2 ^ nat (bitlen ?n - 1))"
    using b1 by (simp add: pow2_nat)
  also have "\<dots> \<le> of_int ?n" using lo by (simp only: of_int_le_iff)
  also have "\<dots> \<le> x" by simp
  finally have l: "2 powi (bitlen ?n - 1) \<le> x" .
  have "?n + 1 \<le> 2 ^ nat (bitlen ?n)" using hi by simp
  then have "real_of_int (?n + 1) \<le> real_of_int (2 ^ nat (bitlen ?n))"
    by (simp only: of_int_le_iff)
  moreover have "x < real_of_int (?n + 1)" by linarith
  ultimately have "x < real_of_int (2 ^ nat (bitlen ?n))" by linarith
  moreover have "(2::real) powi (bitlen ?n - 1 + 1) = of_int (2 ^ nat (bitlen ?n))"
    using b1 by (simp add: pow2_nat)
  ultimately have h: "x < 2 powi (bitlen ?n - 1 + 1)" by simp
  from l h True show ?thesis by (simp add: expo_def)
next
  case False
  let ?y = "1 / x"
  let ?m = "\<lceil>?y\<rceil>"
  let ?k = "bitlen (?m - 1)"
  have y: "1 < ?y" using False assms by simp
  then have m: "0 < ?m - 1" by (simp add: less_ceiling_iff)
  have k1: "1 \<le> ?k" using m by (simp add: bitlen_alt_def)
  from bitlen_bounds [OF m]
  have lo: "2 ^ nat (?k - 1) \<le> ?m - 1" and hi: "?m - 1 < 2 ^ nat ?k" by simp_all
  have "?m \<le> 2 ^ nat ?k" using hi by simp
  then have c2: "real_of_int ?m \<le> real_of_int (2 ^ nat ?k)" by (simp only: of_int_le_iff)
  have c1: "?y \<le> real_of_int ?m" by (rule le_of_int_ceiling)
  from c1 c2 have "?y \<le> real_of_int (2 ^ nat ?k)" by (rule order_trans)
  then have "?y \<le> 2 ^ nat ?k" by simp
  then have "1 / 2 ^ nat ?k \<le> x" using assms
    by (simp add: field_simps)
  then have l: "2 powi (- ?k) \<le> x" using k1 by (simp add: pow2_neg)
  have d1: "real_of_int (2 ^ nat (?k - 1)) \<le> real_of_int (?m - 1)"
    using lo by (simp only: of_int_le_iff)
  have d2: "real_of_int (?m - 1) < ?y" using ceiling_correct [of ?y] by simp
  from d1 d2 have "real_of_int (2 ^ nat (?k - 1)) < ?y" by (rule le_less_trans)
  then have "2 ^ nat (?k - 1) < ?y" by simp
  then have "x < 1 / 2 ^ nat (?k - 1)" using assms by (simp add: field_simps)
  moreover have "(2::real) powi (- ?k + 1) = 1 / 2 ^ nat (?k - 1)"
    using pow2_neg [of "?k - 1"] k1 by simp
  ultimately have h: "x < 2 powi (- ?k + 1)" by simp
  from l h False show ?thesis by (simp add: expo_def)
qed

lemma expo_unique:
  assumes "0 < x" and "2 powi e \<le> x" and "x < 2 powi (e + 1)"
  shows "expo x = e"
proof -
  from expo_bounds [OF assms(1)]
  have l: "2 powi expo x \<le> x" and h: "x < 2 powi (expo x + 1)" by simp_all
  have "(2::real) powi e < 2 powi (expo x + 1)" using assms(2) h by simp
  then have a: "e < expo x + 1" by (rule pow2_less_cancel)
  have "(2::real) powi expo x < 2 powi (e + 1)" using l assms(3) by simp
  then have b: "expo x < e + 1" by (rule pow2_less_cancel)
  from a b show ?thesis by simp
qed

lemma expo_mono:
  assumes "0 < x" and "x \<le> y"
  shows "expo x \<le> expo y"
proof -
  have "(2::real) powi expo x \<le> x" using expo_bounds [OF assms(1)] by simp
  also have "\<dots> \<le> y" by fact
  also have "\<dots> < 2 powi (expo y + 1)" using expo_bounds [of y] assms by simp
  finally have "expo x < expo y + 1" by (rule pow2_less_cancel)
  then show ?thesis by simp
qed


lemma expo_pow2: "expo (2 powi k) = k"
  by (rule expo_unique) (simp_all add: pow2_pos pow2_less)

lemma rne_of_int: "rne (of_int k) = k"
  by (simp add: rne_def)

lemma rne_le: "q \<le> of_int k \<Longrightarrow> rne q \<le> k"
proof -
  assume a: "q \<le> of_int k"
  then have f: "\<lfloor>q\<rfloor> \<le> k" using floor_mono [of q "of_int k"] by simp
  show ?thesis
  proof (cases "\<lfloor>q\<rfloor> = k")
    case True
    then have "q = of_int k" using a by linarith
    then show ?thesis by (simp add: rne_of_int)
  next
    case False
    with f have "\<lfloor>q\<rfloor> + 1 \<le> k" by simp
    then show ?thesis by (auto simp: rne_def Let_def)
  qed
qed

lemma rne_ge: "of_int k \<le> q \<Longrightarrow> k \<le> rne q"
proof -
  assume "of_int k \<le> q"
  then have "k \<le> \<lfloor>q\<rfloor>" by (simp add: le_floor_iff)
  then show ?thesis by (auto simp: rne_def Let_def)
qed

lemma rne_gt_half: "1 / 2 < q \<Longrightarrow> 1 \<le> rne q"
proof -
  assume a: "1 / 2 < q"
  then have f: "0 \<le> \<lfloor>q\<rfloor>" by (simp add: le_floor_iff)
  show ?thesis
  proof (cases "\<lfloor>q\<rfloor> = 0")
    case True
    then show ?thesis using a by (simp add: rne_def Let_def)
  next
    case False
    with f have "1 \<le> \<lfloor>q\<rfloor>" by linarith
    then show ?thesis by (auto simp: rne_def Let_def)
  qed
qed

lemma ulp_pos: "0 < ulp x"
  by (simp add: ulp_def pow2_pos)

lemma ulp_mono:
  assumes "0 < x" and "x \<le> y"
  shows "\<exists>k::nat. ulp y = ulp x * 2 ^ k"
proof -
  let ?a = "max (expo x) (- 1022) - 52"
  let ?b = "max (expo y) (- 1022) - 52"
  have "?a \<le> ?b" using expo_mono [OF assms] by simp
  then have "(2::real) powi ?b = 2 powi ?a * 2 powi (?b - ?a)"
    using pow2_add [of ?a "?b - ?a"] by simp
  also have "(2::real) powi (?b - ?a) = 2 ^ nat (?b - ?a)"
    using \<open>?a \<le> ?b\<close> by (simp add: pow2_nat)
  finally show ?thesis unfolding ulp_def by blast
qed

lemma rd_pos_cases:
  "rd_pos x = PInf \<or> (rd_pos x = Fin (of_int (rne (x / ulp x)) * ulp x) \<and> expo x \<le> 1023 \<and>
     \<not> (expo x = 1023 \<and> rne (x / ulp x) = 2 ^ 53))"
  by (auto simp: rd_pos_def Let_def)

lemma double_pos_grid:
  assumes "0 < r" and "rd r = Fin r"
  shows "(\<exists>n::int. r = of_int n * ulp r) \<and> expo r \<le> 1023"
proof -
  have "rd_pos r = Fin r" using assms by (simp add: rd_def)
  with rd_pos_cases [of r] show ?thesis by auto
qed

lemma rd_pos_le:
  assumes "0 < x" and "x \<le> r" and "rd r = Fin r"
  shows "\<exists>r'. rd_pos x = Fin r' \<and> 0 \<le> r' \<and> r' \<le> r"
proof -
  have r0: "0 < r" using assms by simp
  from double_pos_grid [OF r0 assms(3)]
  obtain n :: int where n: "r = of_int n * ulp r" and er: "expo r \<le> 1023" by blast
  from ulp_mono [OF assms(1,2)] obtain k :: nat where k: "ulp r = ulp x * 2 ^ k" by blast
  have rq: "r / ulp x = of_int (n * 2 ^ k)"
    using n k ulp_pos [of x] by (simp add: field_simps)
  have "x / ulp x \<le> r / ulp x" using assms(2) ulp_pos [of x] by (simp add: divide_right_mono)
  then have m: "rne (x / ulp x) \<le> n * 2 ^ k" unfolding rq by (rule rne_le)
  have m0: "0 \<le> rne (x / ulp x)"
    using rne_ge [of 0 "x / ulp x"] assms(1) ulp_pos [of x] by simp
  let ?r' = "of_int (rne (x / ulp x)) * ulp x"
  have le: "?r' \<le> r"
  proof -
    have "?r' \<le> of_int (n * 2 ^ k) * ulp x"
      using m ulp_pos [of x] by (simp only: mult_le_cancel_right_pos of_int_le_iff)
    also have "\<dots> = r" using rq ulp_pos [of x] by (simp add: field_simps)
    finally show ?thesis .
  qed
  have ge: "0 \<le> ?r'" using m0 ulp_pos [of x] by simp
  have ex: "expo x \<le> 1023" using expo_mono [OF assms(1,2)] er by simp
  have rlt: "r < 2 powi 1024"
  proof -
    have "r < 2 powi (expo r + 1)" using expo_bounds [OF r0] by simp
    also have "\<dots> \<le> 2 powi 1024" using er by (intro pow2_mono) simp
    finally show ?thesis .
  qed
  have no: "\<not> (expo x = 1023 \<and> rne (x / ulp x) = 2 ^ 53)"
  proof
    assume a: "expo x = 1023 \<and> rne (x / ulp x) = 2 ^ 53"
    then have u: "ulp x = 2 powi 971" by (simp add: ulp_def)
    have "?r' = 2 powi 53 * 2 powi 971" using a u by simp
    also have "\<dots> = 2 powi 1024" by (rule pow2_split) simp
    finally show False using le rlt by simp
  qed
  have "rd_pos x = Fin ?r'" using ex no by (simp add: rd_pos_def Let_def)
  with ge le show ?thesis by blast
qed


lemma rd_pos_exact:
  assumes "0 < r" and "r = of_int n * ulp r" and "expo r \<le> 1023" and "n < 2 ^ 53"
  shows "rd_pos r = Fin r"
proof -
  have "r / ulp r = of_int n" using assms(2) ulp_pos [of r] by (simp add: field_simps)
  then have "rne (r / ulp r) = n" by (simp add: rne_of_int)
  then show ?thesis using assms by (simp add: rd_pos_def Let_def)
qed

lemma rd_pos_idem:
  assumes "0 < x" and "rd_pos x = Fin r"
  shows "rd r = Fin r"
proof -
  let ?e = "expo x"
  let ?e' = "max ?e (- 1022)"
  let ?n = "rne (x / ulp x)"
  from rd_pos_cases [of x] assms(2)
  have r: "r = of_int ?n * ulp x" and e: "?e \<le> 1023"
    and no: "\<not> (?e = 1023 \<and> ?n = 2 ^ 53)" by auto
  have u: "ulp x = 2 powi (?e' - 52)" by (simp add: ulp_def)
  have n0: "0 \<le> ?n" using rne_ge [of 0 "x / ulp x"] assms(1) ulp_pos [of x] by simp
  have xlt: "x < 2 powi (?e' + 1)"
  proof -
    have "x < 2 powi (?e + 1)" using expo_bounds [OF assms(1)] by simp
    also have "\<dots> \<le> 2 powi (?e' + 1)" by (intro pow2_mono) simp
    finally show ?thesis .
  qed
  have top: "2 ^ 53 * ulp x = 2 powi (?e' + 1)"
  proof -
    have "2 ^ 53 * ulp x = 2 powi 53 * 2 powi (?e' - 52)" by (simp add: u)
    also have "\<dots> = 2 powi (?e' + 1)" by (rule pow2_split) simp
    finally show ?thesis .
  qed
  have "x / ulp x \<le> of_int (2 ^ 53)"
    using xlt top ulp_pos [of x] by (simp add: field_simps)
  then have n53: "?n \<le> 2 ^ 53" by (rule rne_le)
  show ?thesis
  proof (cases "?n = 0")
    case True
    then show ?thesis using r by (simp add: rd_def)
  next
    case False
    with n0 have npos: "0 < ?n" by simp
    then have rpos: "0 < r" using r ulp_pos [of x] by simp
    show ?thesis
    proof (cases "?n = 2 ^ 53")
      case True
      then have rv: "r = 2 powi (?e' + 1)" using r top by simp
      have e1: "?e' + 1 \<le> 1023" using True no e by simp
      have er: "expo r = ?e' + 1" unfolding rv by (rule expo_pow2)
      have ur: "ulp r = 2 powi (?e' + 1 - 52)" by (simp add: ulp_def er)
      have "2 powi 52 * 2 powi (?e' + 1 - 52) = (2::real) powi (?e' + 1)"
        by (rule pow2_split) simp
      then have eq: "r = 2 powi 52 * 2 powi (?e' + 1 - 52)" unfolding rv by simp
      have p52: "real_of_int (2 ^ 52) = 2 powi 52" by simp
      have "r = of_int (2 ^ 52) * ulp r" unfolding ur p52 by (fact eq)
      then have "rd_pos r = Fin r"
        using rpos er e1 by (intro rd_pos_exact [where n = "2 ^ 52"]) simp_all
      then show ?thesis using rpos by (simp add: rd_def)
    next
      case nf: False
      with n53 have nlt: "?n < 2 ^ 53" by simp
      have rlt: "r < 2 powi (?e' + 1)"
      proof -
        have "r < of_int (2 ^ 53) * ulp x"
          unfolding r using nlt ulp_pos [of x]
          by (simp only: mult_less_cancel_right_pos of_int_less_iff)
        then show ?thesis using top by simp
      qed
      have em: "max (expo r) (- 1022) = ?e'"
      proof (cases "- 1022 \<le> ?e")
        case True
        then have e'e: "?e' = ?e" by simp
        have "2 powi ?e \<le> x" using expo_bounds [OF assms(1)] by simp
        moreover have "2 powi ?e = of_int (2 ^ 52) * ulp x"
        proof -
          have "of_int (2 ^ 52) * ulp x = 2 powi 52 * 2 powi (?e - 52)" by (simp add: u e'e)
          also have "\<dots> = 2 powi ?e" by (rule pow2_split) simp
          finally show ?thesis by simp
        qed
        ultimately have "of_int (2 ^ 52) \<le> x / ulp x"
          using ulp_pos [of x] by (simp add: field_simps)
        then have "2 ^ 52 \<le> ?n" by (rule rne_ge)
        then have "of_int (2 ^ 52) * ulp x \<le> r"
          unfolding r using ulp_pos [of x]
          by (simp only: mult_le_cancel_right_pos of_int_le_iff)
        with \<open>2 powi ?e = of_int (2 ^ 52) * ulp x\<close> have "2 powi ?e \<le> r" by simp
        moreover have "r < 2 powi (?e + 1)" using rlt e'e by simp
        ultimately have "expo r = ?e" using rpos by (intro expo_unique)
        then show ?thesis by simp
      next
        case False
        then have e'm: "?e' = - 1022" by simp
        have "r < 2 powi (- 1022 + 1)" using rlt e'm by simp
        then have "r \<le> 2 powi (- 1021)" by simp
        have "expo r < - 1022 + 1"
        proof -
          have "2 powi expo r \<le> r" using expo_bounds [OF rpos] by simp
          also have "r < 2 powi (- 1022 + 1)" using rlt e'm by simp
          finally show ?thesis by (rule pow2_less_cancel)
        qed
        then show ?thesis using e'm by simp
      qed
      have ur: "ulp r = ulp x" by (simp add: ulp_def em)
      have er: "expo r \<le> 1023" using em e by simp
      have "rd_pos r = Fin r"
        using rpos r ur er nlt by (intro rd_pos_exact [where n = ?n]) simp_all
      then show ?thesis using rpos by (simp add: rd_def)
    qed
  qed
qed

lemma fneg_Fin_iff: "fneg a = Fin r \<longleftrightarrow> a = Fin (- r)"
  by (cases a) auto

lemma rd_minus: "rd (- x) = fneg (rd x)"
  by (cases "rd_pos x"; cases "rd_pos (- x)") (auto simp: rd_def)

lemma rd_idem:
  assumes "rd x = Fin r"
  shows "rd r = Fin r"
proof -
  consider "x = 0" | "0 < x" | "x < 0" by linarith
  then show ?thesis
  proof cases
    case 1
    then show ?thesis using assms by (simp add: rd_def)
  next
    case 2
    then show ?thesis using assms rd_pos_idem [of x r] by (simp add: rd_def)
  next
    case 3
    then have "rd_pos (- x) = Fin (- r)" using assms by (simp add: rd_def fneg_Fin_iff)
    then have "rd (- r) = Fin (- r)" using 3 rd_pos_idem [of "- x" "- r"] by simp
    then show ?thesis using rd_minus [of r] by (simp add: fneg_Fin_iff)
  qed
qed


lemma rd_pos_sign:
  assumes "0 < x"
  shows "rd_pos x = PInf \<or> (\<exists>r\<ge>0. rd_pos x = Fin r)"
proof -
  have "0 \<le> rne (x / ulp x)" using rne_ge [of 0 "x / ulp x"] assms ulp_pos [of x] by simp
  then have "0 \<le> of_int (rne (x / ulp x)) * ulp x" using ulp_pos [of x] by simp
  with rd_pos_cases [of x] show ?thesis by blast
qed

lemma rd_neg_sign:
  assumes "x < 0"
  shows "rd x = NInf \<or> (\<exists>r\<le>0. rd x = Fin r)"
proof -
  from rd_pos_sign [of "- x"] assms
  consider "rd_pos (- x) = PInf" | r where "0 \<le> r" "rd_pos (- x) = Fin r" by auto
  then show ?thesis
  proof cases
    case 1
    then show ?thesis using assms by (simp add: rd_def)
  next
    case 2
    then have "rd x = Fin (- r)" using assms by (simp add: rd_def)
    with 2(1) show ?thesis by auto
  qed
qed

lemma rd_positive:
  assumes "1 / 2 ^ 1075 < x"
  shows "rd x = PInf \<or> (\<exists>r. 0 < r \<and> rd x = Fin r)"
proof -
  have x0: "0 < x"
  proof -
    have "(0::real) < 1 / 2 ^ 1075" by simp
    then show ?thesis using assms by (rule less_trans)
  qed
  have n1: "1 \<le> rne (x / ulp x)"
  proof (cases "- 1022 \<le> expo x")
    case True
    then have u: "ulp x = 2 powi (expo x - 52)" by (simp add: ulp_def)
    have "2 powi expo x \<le> x" using expo_bounds [OF x0] by simp
    moreover have "2 powi 52 * 2 powi (expo x - 52) = (2::real) powi expo x"
      by (rule pow2_split) simp
    ultimately have "2 powi 52 * ulp x \<le> x" by (simp add: u)
    then have "2 powi 52 \<le> x / ulp x" using ulp_pos [of x] by (simp add: field_simps)
    moreover have "(1::real) \<le> 2 powi 52" by simp
    ultimately have "of_int 1 \<le> x / ulp x" by simp
    then show ?thesis by (rule rne_ge)
  next
    case False
    then have u: "ulp x = 2 powi (- 1074)" by (simp add: ulp_def)
    have "2 powi (- 1074) = (1::real) / 2 ^ 1074"
      using pow2_neg [of 1074] by simp
    then have "x / ulp x = x * 2 ^ 1074" by (simp add: u)
    moreover have "1 / 2 ^ 1075 * 2 ^ 1074 < x * (2 ^ 1074 :: real)"
      using assms by (simp only: mult_less_cancel_right_pos zero_less_power zero_less_numeral)
    moreover have "(1::real) / 2 ^ 1075 * 2 ^ 1074 = 1 / 2" by simp
    ultimately have "1 / 2 < x / ulp x" by simp
    then show ?thesis by (rule rne_gt_half)
  qed
  then have "0 < of_int (rne (x / ulp x)) * ulp x" using ulp_pos [of x] by simp
  with rd_pos_cases [of x] x0 show ?thesis by (auto simp: rd_def)
qed

lemma rd_grid:
  assumes "0 < m" and "m < 2 ^ 53" and "- 1074 \<le> k"
    and "of_int m * 2 powi k < (2::real) powi 1024"
  shows "rd (of_int m * 2 powi k) = Fin (of_int m * 2 powi k)"
proof -
  let ?x = "of_int m * 2 powi k :: real"
  let ?e' = "max (expo ?x) (- 1022)"
  have x0: "0 < ?x" using assms(1) by simp
  have u: "ulp ?x = 2 powi (?e' - 52)" by (simp add: ulp_def)
  have "?x < of_int (2 ^ 53) * 2 powi k"
    using assms(2) by (simp only: mult_less_cancel_right_pos of_int_less_iff pow2_pos)
  also have "\<dots> = 2 powi 53 * 2 powi k" by simp
  also have "\<dots> = 2 powi (53 + k)" by (rule pow2_split) simp
  finally have xk: "?x < 2 powi (53 + k)" .
  have "2 powi expo ?x \<le> ?x" using expo_bounds [OF x0] by simp
  from this xk have "(2::real) powi expo ?x < 2 powi (53 + k)" by (rule le_less_trans)
  then have ek: "expo ?x < 53 + k" by (rule pow2_less_cancel)
  have e1024: "expo ?x < 1024"
  proof -
    have "2 powi expo ?x \<le> ?x" using expo_bounds [OF x0] by simp
    from this assms(4) have "(2::real) powi expo ?x < 2 powi 1024" by (rule le_less_trans)
    then show ?thesis by (rule pow2_less_cancel)
  qed
  have d: "0 \<le> k - ?e' + 52" using ek assms(3) by simp
  let ?n = "m * 2 ^ nat (k - ?e' + 52)"
  have "2 powi (k - ?e' + 52) * 2 powi (?e' - 52) = (2::real) powi k"
    by (rule pow2_split) simp
  then have "?x = of_int m * (2 powi (k - ?e' + 52) * ulp ?x)" by (simp only: u)
  also have "\<dots> = of_int ?n * ulp ?x" using d by (simp add: pow2_nat)
  finally have g: "?x = of_int ?n * ulp ?x" .
  have nlt: "?n < 2 ^ 53"
  proof -
    have "?x < 2 powi (expo ?x + 1)" using expo_bounds [OF x0] by simp
    also have "\<dots> \<le> 2 powi (?e' + 1)" by (intro pow2_mono) simp
    also have "\<dots> = 2 powi 53 * 2 powi (?e' - 52)"
      by (rule pow2_split [symmetric]) simp
    finally have lt: "?x < 2 powi 53 * 2 powi (?e' - 52)" .
    have p53: "real_of_int (2 ^ 53) = 2 powi 53" by simp
    have e1: "of_int ?n * ulp ?x = ?x" by (rule g [symmetric])
    have e2: "of_int (2 ^ 53) * ulp ?x = 2 powi 53 * 2 powi (?e' - 52)"
      by (simp only: u p53)
    have "of_int ?n * ulp ?x < of_int (2 ^ 53) * ulp ?x"
      using lt by (simp only: e1 e2)
    then show ?thesis using ulp_pos [of ?x]
      by (simp only: mult_less_cancel_right_pos of_int_less_iff)
  qed
  have "rd_pos ?x = Fin ?x"
    using x0 g e1024 nlt by (intro rd_pos_exact [where n = ?n]) simp_all
  then show ?thesis using x0 by (simp add: rd_def)
qed

lemma rd_of_int:
  assumes "\<bar>n\<bar> \<le> 2 ^ 53"
  shows "rd (of_int n) = Fin (of_int n)"
proof -
  have pos: "rd (of_int m) = Fin (of_int m)" if "0 < m" "m \<le> 2 ^ 53" for m :: int
  proof (cases "m = 2 ^ 53")
    case True
    have "rd (of_int 1 * 2 powi 53) = Fin (of_int 1 * 2 powi 53)"
      by (rule rd_grid) simp_all
    then show ?thesis using True by simp
  next
    case False
    with that have "m < 2 ^ 53" by simp
    moreover have "real_of_int m < 2 powi 1024"
    proof -
      have "real_of_int m < real_of_int (2 ^ 53)" using \<open>m < 2 ^ 53\<close> by (simp only: of_int_less_iff)
      also have "\<dots> = 2 powi 53" by simp
      also have "\<dots> \<le> 2 powi 1024" by (intro pow2_mono) simp
      finally show ?thesis .
    qed
    ultimately have "rd (of_int m * 2 powi 0) = Fin (of_int m * 2 powi 0)"
      using that(1) by (intro rd_grid) simp_all
    then show ?thesis by simp
  qed
  consider "n = 0" | "0 < n" | "n < 0" by linarith
  then show ?thesis
  proof cases
    case 1
    then show ?thesis by (simp add: rd_def)
  next
    case 2
    then show ?thesis using pos assms by simp
  next
    case 3
    then have "rd (of_int (- n)) = Fin (of_int (- n))" using pos [of "- n"] assms by simp
    then have "fneg (rd (of_int n)) = Fin (- of_int n)" using rd_minus [of "of_int n"] by simp
    then show ?thesis by (simp add: fneg_Fin_iff)
  qed
qed

subsection \<open>Helper lemmas\<close>

lemma rd_numeral: "(numeral k :: int) \<le> 2 ^ 53 \<Longrightarrow> rd (numeral k) = Fin (numeral k)"
  using rd_of_int [of "numeral k"] by simp

lemma rd_0: "rd 0 = Fin 0"
  by (simp add: rd_def)

lemma rd_1: "rd 1 = Fin 1"
  using rd_of_int [of 1] by simp

lemma eps_val: "eps = Fin (944473296573929 / 9444732965739290427392)"
  unfolding eps_def by code_simp

lemma eps_below: "(944473296573929 / 9444732965739290427392 :: real) < 1 / 10 ^ 7"
  by simp

lemma fsub_Fin_eps: "fsub (Fin c) eps = rd (c - 944473296573929 / 9444732965739290427392)"
  by (simp add: fsub_def eps_val)


lemma thr_10: "fsub (Fin 10) eps = Fin (5629499477918125 / 562949953421312)"
  unfolding eps_def by code_simp

lemma or_number_Fin0: "or_number (Some (Fin r)) (Fin 0) = Fin r"
  by (simp add: or_number_def truthy_num_def)

lemma fle_refl_Fin: "fle (Fin a) (Fin a)"
  by simp

lemma scan_SomeD:
  "scan sn now sale ts = Some t \<Longrightarrow>
     t \<in> set ts \<and> \<not> too_old now t \<and> fle (fsub (sl_cost sale) eps) (tx_val sn t)"
  by (induction ts) (auto split: if_splits)

lemma dec_digits_2e12: "dec_digits ''2000000000000'' = Fin 2000000000000"
  by (simp add: dec_digits_def is_digit_def rd_numeral)

lemma dec_digits_abc: "dec_digits ''abc'' = NaN"
  by (simp add: dec_digits_def is_digit_def)

lemma in_msg_of_mk_tx:
  "in_msg_of (mk_tx v src ut) =
     Some \<lparr> msg_value = v, msg_source = src, msg_source_address = None, msg_hash = Some ''mh1'' \<rparr>"
  by (simp add: in_msg_of_def mk_tx_def)

lemma tx_val_mk_tx: "truthy_raw v \<Longrightarrow> tx_val sn (mk_tx v src ut) = parseTonValue sn v"
  by (simp add: tx_val_def in_msg_of_mk_tx)

lemma parseTonValue_small:
  "rd x = Fin r \<Longrightarrow> r \<le> 10 ^ 12 \<Longrightarrow> parseTonValue sn (RNum x) = Fin r"
  by (simp add: parseTonValue_def flt_def)

lemma tx_val_mk_tx_num:
  "rd x = Fin r \<Longrightarrow> r \<noteq> 0 \<Longrightarrow> r \<le> 10 ^ 12 \<Longrightarrow> tx_val sn (mk_tx (RNum x) src ut) = Fin r"
  by (simp add: tx_val_mk_tx truthy_num_def parseTonValue_small)

lemma rd_low: "rd (9999999 / 1000000) = Fin (5629498971263167 / 562949953421312)"
  by code_simp





lemma store0_sale: "sales store0 ''s1'' = Some sale_p"
  by (simp add: store0_def)

lemma sale_p_pending: "sl_status sale_p \<noteq> Confirmed"
  by (simp add: sale_p_def)

lemma now_env0: "now_ms env0 div 1000 = 1700000000"
  by (simp add: env0_def)

subsection \<open>Confirming a confirmed sale\<close>

text \<open>
  Claim C3. Confirming a sale whose status is \<open>confirmed\<close> answers
  \<open>{ok:true, message:'already_confirmed'}\<close> and leaves the whole store (tokens, sales,
  balances, history) as it was, whatever hash is sent and whatever the chain would
  answer.
\<close>

theorem confirm_already_confirmed:
  assumes "sales s saleId = Some sale" and "sl_status sale = Confirmed"
  shows "confirmSale sn e ch saleId txHash s = (Resp 200 (OkMessage ''already_confirmed''), s)"
  using assms by (simp add: confirmSale_def)

theorem confirm_already_confirmed_witness:
  "sales store_c ''s1'' = Some (sale_p \<lparr> sl_status := Confirmed \<rparr>) \<and>
   sl_status (sale_p \<lparr> sl_status := Confirmed \<rparr>) = Confirmed \<and>
   confirmSale dec_digits env0 (mk_chain None None) ''s1'' (Some ''h1'') store_c
     = (Resp 200 (OkMessage ''already_confirmed''), store_c)"
proof -
  have a: "sales store_c ''s1'' = Some (sale_p \<lparr> sl_status := Confirmed \<rparr>)"
    by (simp add: store_c_def)
  have b: "sl_status (sale_p \<lparr> sl_status := Confirmed \<rparr>) = Confirmed" by simp
  from confirm_already_confirmed [OF a b] a b show ?thesis by blast
qed

subsection \<open>Value normalization\<close>

text \<open>
  Claim C6. When the raw value \<open>v\<close> converts to a number \<open>n\<close> that is not \<open>NaN\<close>,
  \<open>parseTonValue\<close> returns \<open>n / 1e9\<close> if \<open>n > 1e12\<close> and \<open>n\<close> otherwise; for a finite
  \<open>n\<close> the quotient is the double nearest to \<open>n / 10\<^sup>9\<close>. \<open>2000000000000\<close> becomes
  \<open>2000\<close>, and the amount check of a transaction whose incoming message carries \<open>v\<close>
  compares the normalized value against \<open>cost - 0.0000001\<close>.
\<close>

theorem parseTonValue_normalizes:
  "(to_number sn v = n \<and> n \<noteq> NaN \<longrightarrow>
      parseTonValue sn v = (if flt (Fin (10 ^ 12)) n then fdiv n (10 ^ 9) else n)) \<and>
   (to_number sn v = Fin r \<longrightarrow>
      parseTonValue sn v = (if 10 ^ 12 < r then rd (r / 10 ^ 9) else Fin r)) \<and>
   parseTonValue sn (RNum 2000000000000) = Fin 2000 \<and>
   (in_msg_of t = Some m \<and> truthy_raw (msg_value m) \<and> to_number sn (msg_value m) = n \<and>
    n \<noteq> NaN \<longrightarrow>
      okAmount sn sale t =
        fle (fsub (sl_cost sale) eps) (if flt (Fin (10 ^ 12)) n then fdiv n (10 ^ 9) else n))"
proof -
  have g: "parseTonValue sn v = (if flt (Fin (10 ^ 12)) n then fdiv n (10 ^ 9) else n)"
    if "to_number sn v = n" "n \<noteq> NaN" for v n
    using that by (cases v) (auto simp: parseTonValue_def Let_def flt_def)
  have f: "parseTonValue sn v = (if 10 ^ 12 < r then rd (r / 10 ^ 9) else Fin r)"
    if "to_number sn v = Fin r" for v r
    using g [OF that] by (auto simp: flt_def)
  have r1: "rd 2000000000000 = Fin 2000000000000" by (simp add: rd_numeral)
  have r2: "rd (2000000000000 / 10 ^ 9) = Fin 2000" by code_simp
  have p: "parseTonValue sn (RNum 2000000000000) = Fin 2000"
    using f [of "RNum 2000000000000" 2000000000000] r1 r2 by simp
  have c: "okAmount sn sale t =
        fle (fsub (sl_cost sale) eps) (if flt (Fin (10 ^ 12)) n then fdiv n (10 ^ 9) else n)"
    if "in_msg_of t = Some m" "truthy_raw (msg_value m)" "to_number sn (msg_value m) = n" "n \<noteq> NaN"
    using that g [OF that(3,4)] by (simp add: okAmount_def tx_val_def)
  from g f p c show ?thesis by blast
qed

theorem parseTonValue_normalizes_witness:
  "to_number dec_digits (RStr ''2000000000000'') = Fin 2000000000000 \<and>
   Fin 2000000000000 \<noteq> NaN \<and>
   parseTonValue dec_digits (RStr ''2000000000000'') = Fin 2000 \<and>
   in_msg_of tx_big = Some \<lparr> msg_value = RStr ''2000000000000'', msg_source = None,
                             msg_source_address = None, msg_hash = Some ''mh1'' \<rparr> \<and>
   truthy_raw (RStr ''2000000000000'') \<and>
   okAmount dec_digits sale_p tx_big = fle (fsub (sl_cost sale_p) eps) (Fin 2000) \<and>
   okAmount dec_digits sale_p tx_big"
proof -
  let ?m = "\<lparr> msg_value = RStr ''2000000000000'', msg_source = None,
              msg_source_address = None, msg_hash = Some ''mh1'' \<rparr>"
  have a: "to_number dec_digits (RStr ''2000000000000'') = Fin 2000000000000"
    by (simp add: dec_digits_2e12)
  have b: "in_msg_of tx_big = Some ?m"
    by (simp add: tx_big_def in_msg_of_mk_tx)
  have t: "truthy_raw (RStr ''2000000000000'')" by simp
  have q: "rd (2000000000000 / 10 ^ 9) = Fin 2000" by code_simp
  note inst = parseTonValue_normalizes [where sn = dec_digits and n = "Fin 2000000000000"
      and r = 2000000000000 and v = "RStr ''2000000000000''" and t = tx_big and m = ?m
      and sale = sale_p]
  have c: "parseTonValue dec_digits (RStr ''2000000000000'') = Fin 2000"
    using inst [THEN conjunct2, THEN conjunct1] a q by simp
  have d: "okAmount dec_digits sale_p tx_big = fle (fsub (sl_cost sale_p) eps) (Fin 2000)"
    using inst [THEN conjunct2, THEN conjunct2, THEN conjunct2] a b q by (simp add: flt_def)
  have e: "okAmount dec_digits sale_p tx_big"
    unfolding d by (simp add: sale_p_def thr_10)
  from a b c t d e show ?thesis by simp
qed

subsection \<open>Values without a numeric reading\<close>

lemma tiny_below_gap:
  "(1 / 2 ^ 1075 :: real) < 1 / 10 ^ 7 - 944473296573929 / 9444732965739290427392"
  by simp

lemma threshold_positive:
  assumes "above c (1 / 10 ^ 7)"
  shows "\<not> fle (fsub c eps) (Fin 0)"
proof (cases c)
  case (Fin x)
  then have x: "1 / 10 ^ 7 < x" using assms by (simp add: above_def)
  have "1 / 2 ^ 1075 < x - 944473296573929 / 9444732965739290427392"
    using tiny_below_gap x by linarith
  from rd_positive [OF this]
  have "rd (x - 944473296573929 / 9444732965739290427392) = PInf \<or>
    (\<exists>r. 0 < r \<and> rd (x - 944473296573929 / 9444732965739290427392) = Fin r)" .
  then show ?thesis unfolding Fin fsub_Fin_eps by auto
next
  case PInf
  then show ?thesis by (simp add: fsub_def eps_val)
qed (use assms in \<open>simp_all add: above_def\<close>)

text \<open>
  Claim C10. \<open>parseTonValue\<close> returns \<open>0\<close> on \<open>null\<close>, on \<open>undefined\<close> and on every
  value whose conversion is \<open>NaN\<close>. Hence a transaction none of whose value fields has a
  numeric reading has value \<open>0\<close>, fails the amount check of every sale whose cost exceeds
  \<open>10\<^sup>-\<^sup>7\<close>, and is never the match of a scan for such a sale.
\<close>

theorem parseTonValue_defaults_to_zero:
  "(no_number sn v \<longrightarrow> parseTonValue sn v = Fin 0) \<and>
   (lacks_value sn t \<longrightarrow> tx_val sn t = Fin 0) \<and>
   (lacks_value sn t \<and> above (sl_cost sale) (1 / 10 ^ 7) \<longrightarrow>
      \<not> okAmount sn sale t \<and> scan sn now sale ts \<noteq> Some t)"
proof -
  have p: "parseTonValue sn v = Fin 0" if "no_number sn v" for v
    using that by (auto simp: no_number_def parseTonValue_def)
  have z: "tx_val sn t = Fin 0" if "lacks_value sn t"
    using that by (auto simp: lacks_value_def tx_val_def p split: option.splits)
  have o: "\<not> okAmount sn sale t" if "lacks_value sn t" "above (sl_cost sale) (1 / 10 ^ 7)"
    using z [OF that(1)] threshold_positive [OF that(2)] by (simp add: okAmount_def)
  have s: "scan sn now sale ts \<noteq> Some t"
    if "lacks_value sn t" "above (sl_cost sale) (1 / 10 ^ 7)"
  proof
    assume "scan sn now sale ts = Some t"
    then have "fle (fsub (sl_cost sale) eps) (tx_val sn t)" by (simp add: scan_SomeD)
    with z [OF that(1)] threshold_positive [OF that(2)] show False by simp
  qed
  from p z o s show ?thesis by blast
qed

theorem parseTonValue_defaults_to_zero_witness:
  "no_number dec_digits (RStr ''abc'') \<and> parseTonValue dec_digits (RStr ''abc'') = Fin 0 \<and>
   no_number dec_digits RNull \<and> no_number dec_digits RUndefined \<and>
   lacks_value dec_digits tx_nan \<and> tx_val dec_digits tx_nan = Fin 0 \<and>
   above (sl_cost sale_p) (1 / 10 ^ 7) \<and>
   \<not> okAmount dec_digits sale_p tx_nan \<and>
   scan dec_digits 1700000000 sale_p [tx_nan] \<noteq> Some tx_nan"
proof -
  have a: "no_number dec_digits (RStr ''abc'')" "no_number dec_digits RNull"
    "no_number dec_digits RUndefined"
    by (simp_all add: no_number_def dec_digits_abc)
  have l: "lacks_value dec_digits tx_nan"
    by (simp add: lacks_value_def tx_nan_def in_msg_of_mk_tx a) (simp add: mk_tx_def a)
  have c: "above (sl_cost sale_p) (1 / 10 ^ 7)" by (simp add: sale_p_def above_def)
  note inst = parseTonValue_defaults_to_zero [where sn = dec_digits and v = "RStr ''abc''"
      and t = tx_nan and sale = sale_p and now = 1700000000 and ts = "[tx_nan]"]
  from inst a l c show ?thesis by blast
qed

subsection \<open>Transfer with an insufficient balance\<close>

lemma balance_store_b: "balance_amount store_b ''t1__EQalice'' = Fin 3"
  by (simp add: balance_amount_def store_b_def or_number_def truthy_num_def)

text \<open>
  Claim C9, as stated, fails: a request whose recipient is missing is answered
  \<open>missing\<close> by line 250, before the balance is read, although the sender's balance
  \<open>3\<close> is below the requested \<open>5\<close>.
\<close>

theorem transfer_missing_recipient:
  "balance_amount store_b (balKey (tr_tokenId req_m) (tr_from req_m)) = Fin 3 \<and>
   to_number dec_digits (tr_amount req_m) = Fin 5 \<and>
   flt (Fin 3) (Fin 5) \<and>
   transfer dec_digits env0 req_m store_b = (Resp 400 (Err ''missing''), store_b) \<and>
   fst (transfer dec_digits env0 req_m store_b) \<noteq> Resp 400 (Err ''insufficient'')"
  by (simp add: req_m_def req_t_def balKey_def balance_store_b rd_numeral flt_def transfer_def)

text \<open>
  Claim C9, amended. For every transfer request that passes the handler's validation
  (token, sender, recipient and amount present, amount above \<open>0\<close>) and whose sender
  balance (\<open>0\<close> without a balance document) is less than the requested amount, the
  operation fails with \<open>insufficient\<close>. For every request with the balance below the
  amount, validated or not, the store is unchanged: neither balance moves and no history
  entry is written; a request that fails validation is answered \<open>missing\<close> or
  \<open>bad_amount\<close>.
\<close>

theorem transfer_insufficient:
  assumes "flt (balance_amount s (balKey (tr_tokenId rq) (tr_from rq)))
               (to_number sn (tr_amount rq))"
  shows "snd (transfer sn e rq s) = s \<and>
         (validated sn rq \<longrightarrow> transfer sn e rq s = (Resp 400 (Err ''insufficient''), s)) \<and>
         (\<not> validated sn rq \<longrightarrow>
            transfer sn e rq s = (Resp 400 (Err ''missing''), s) \<or>
            transfer sn e rq s = (Resp 400 (Err ''bad_amount''), s))"
  using assms by (auto simp: transfer_def validated_def Let_def)

theorem transfer_insufficient_witness:
  "balance_amount store_b (balKey (tr_tokenId req_t) (tr_from req_t)) = Fin 3 \<and>
   to_number dec_digits (tr_amount req_t) = Fin 5 \<and> flt (Fin 3) (Fin 5) \<and>
   validated dec_digits req_t \<and>
   transfer dec_digits env0 req_t store_b = (Resp 400 (Err ''insufficient''), store_b) \<and>
   balance_amount (snd (transfer dec_digits env0 req_t store_b)) ''t1__EQalice'' = Fin 3 \<and>
   balances (snd (transfer dec_digits env0 req_t store_b)) ''t1__EQbob'' = None \<and>
   history (snd (transfer dec_digits env0 req_t store_b)) = Map.empty \<and>
   \<not> validated dec_digits req_m \<and>
   transfer dec_digits env0 req_m store_b = (Resp 400 (Err ''missing''), store_b)"
proof -
  have a: "balance_amount store_b (balKey (tr_tokenId req_t) (tr_from req_t)) = Fin 3"
    "balance_amount store_b (balKey (tr_tokenId req_m) (tr_from req_m)) = Fin 3"
    by (simp_all add: balKey_def req_t_def req_m_def balance_store_b)
  have b: "to_number dec_digits (tr_amount req_t) = Fin 5"
    "to_number dec_digits (tr_amount req_m) = Fin 5"
    by (simp_all add: req_t_def req_m_def rd_numeral)
  have lt: "flt (Fin 3) (Fin 5)" by (simp add: flt_def)
  have c: "validated dec_digits req_t"
    by (simp add: validated_def req_t_def rd_numeral truthy_num_def)
  have cm: "\<not> validated dec_digits req_m" by (simp add: validated_def req_m_def)
  have h1: "flt (balance_amount store_b (balKey (tr_tokenId req_t) (tr_from req_t)))
               (to_number dec_digits (tr_amount req_t))"
    unfolding a b by (rule lt)
  have h2: "flt (balance_amount store_b (balKey (tr_tokenId req_m) (tr_from req_m)))
               (to_number dec_digits (tr_amount req_m))"
    unfolding a b by (rule lt)
  have d: "transfer dec_digits env0 req_t store_b = (Resp 400 (Err ''insufficient''), store_b)"
    using transfer_insufficient [OF h1, of env0] c by blast
  have dm: "transfer dec_digits env0 req_m store_b = (Resp 400 (Err ''missing''), store_b)"
    using transfer_insufficient [OF h2, of env0] cm
    by (auto simp: transfer_def req_m_def)
  have f: "balances store_b ''t1__EQbob'' = None" by (simp add: store_b_def)
  have g: "history store_b = Map.empty" by (simp add: store_b_def store0_def)
  from a(1) b(1) lt c d balance_store_b f g cm dm show ?thesis by simp
qed

subsection \<open>The two paths of the confirmation\<close>

lemma balance_amount_cong:
  "balances s' = balances s \<Longrightarrow> balance_amount s' k = balance_amount s k"
  by (simp add: balance_amount_def)

lemma finalize_eq:
  "finalize e saleId sale h s =
     (Resp 200 (OkMessage ''sale_confirmed''), finalized e saleId sale h s)"
  by (cases s)
    (auto simp: finalize_def finalized_def Let_def balance_amount_def fun_eq_iff
      split: option.splits)



lemma direct_path_failed: "lookup_failed ch h \<Longrightarrow> direct_path sn e ch saleId sale h s = None"
  by (auto simp: lookup_failed_def direct_path_def split: option.splits bool.splits)

lemma scan_path_unavailable:
  "txs_unavailable ch (sl_seller sale) \<Longrightarrow>
   scan_path sn e ch saleId sale s =
     (Resp 200 (NotOk ''txs_unavailable''), set_status saleId sale PendingCheck s)"
  by (auto simp: txs_unavailable_def scan_path_def split: option.splits)

lemma scan_path_available:
  "\<not> txs_unavailable ch (sl_seller sale) \<Longrightarrow>
   scan_path sn e ch saleId sale s =
     (case scan sn (now_ms e div 1000) sale (recent_txs ch (sl_seller sale)) of
        None \<Rightarrow> (Resp 200 (NotOk ''not_found''), set_status saleId sale PendingCheck s)
      | Some matched \<Rightarrow> finalize e saleId sale (found_hash matched) s)"
  by (auto simp: txs_unavailable_def recent_txs_def scan_path_def Let_def split: option.splits)

lemma confirm_no_hash:
  "sales s saleId = Some sale \<Longrightarrow> sl_status sale \<noteq> Confirmed \<Longrightarrow>
   confirmSale sn e ch saleId None s = scan_path sn e ch saleId sale s"
  by (simp add: confirmSale_def)

lemma confirm_failed_lookup:
  "sales s saleId = Some sale \<Longrightarrow> sl_status sale \<noteq> Confirmed \<Longrightarrow> lookup_failed ch h \<Longrightarrow>
   confirmSale sn e ch saleId (Some h) s = scan_path sn e ch saleId sale s"
  by (simp add: confirmSale_def direct_path_failed)


lemma confirm_scan:
  assumes "sales s saleId = Some sale" and "sl_status sale \<noteq> Confirmed"
    and "\<not> txs_unavailable ch (sl_seller sale)"
    and "scan sn (now_ms e div 1000) sale (recent_txs ch (sl_seller sale)) = Some t"
  shows "confirmSale sn e ch saleId None s =
           (Resp 200 (OkMessage ''sale_confirmed''), finalized e saleId sale (found_hash t) s)"
  unfolding confirm_no_hash [OF assms(1,2)] scan_path_available [OF assms(3)] assms(4)
  by (simp add: finalize_eq)

lemma txs_available_listed: "\<not> txs_unavailable (mk_chain r (Some (listed ts))) seller"
  by (simp add: txs_unavailable_def mk_chain_def listed_def)

lemma recent_txs_listed: "recent_txs (mk_chain r (Some (listed ts))) seller = ts"
  by (simp add: recent_txs_def mk_chain_def listed_def)




lemma not_too_old_recent: "\<not> too_old 1700000000 (mk_tx v src (Some 1699999990))"
  by (simp add: too_old_def utime_of_def or_int_def mk_tx_def)


lemma credit_4: "fadd (Fin 0) (Fin 4) = Fin 4"
  by (simp add: rd_numeral)

lemma tx_val_samples:
  "tx_val sn tx_ok = Fin 10" "tx_val sn tx_other = Fin 10" "tx_val sn tx_epoch = Fin 10"
  "tx_val sn tx_stale = Fin 10" "tx_val sn tx_15 = Fin 15"
  "tx_val sn tx_low = Fin (5629498971263167 / 562949953421312)"
  by (simp_all add: tx_ok_def tx_other_def tx_epoch_def tx_stale_def tx_15_def tx_low_def
      tx_val_mk_tx_num [OF rd_numeral] tx_val_mk_tx_num [OF rd_low])


subsection \<open>The direct-hash path\<close>







subsection \<open>The scan path\<close>



lemma not_too_old_samples:
  "\<not> too_old (now_ms env0 div 1000) tx_low" "\<not> too_old (now_ms env0 div 1000) tx_other"
  "\<not> too_old (now_ms env0 div 1000) tx_ok" "\<not> too_old (now_ms env0 div 1000) tx_near"
  by (simp_all add: now_env0 tx_low_def tx_other_def tx_ok_def tx_near_def not_too_old_recent)




text \<open>
  Claim C7, as stated, fails at the timestamp \<open>0\<close>: it lies more than 24 hours before
  the current time, yet line 217 tests \<open>utime &&\<close> first, so the transaction is not
  skipped and is matched.
\<close>

theorem scan_matches_timestamp_zero:
  "tx_utime tx_epoch = Some 0 \<and> now_ms env0 div 1000 - 0 > 60 * 60 * 24 \<and>
   scan dec_digits (now_ms env0 div 1000) sale_p [tx_epoch] = Some tx_epoch"
proof -
  have a: "tx_utime tx_epoch = Some 0" by (simp add: tx_epoch_def mk_tx_def)
  have b: "\<not> too_old (now_ms env0 div 1000) tx_epoch"
    by (simp add: too_old_def utime_of_def or_int_def tx_epoch_def mk_tx_def)
  have c: "scan dec_digits (now_ms env0 div 1000) sale_p [tx_epoch] = Some tx_epoch"
    by (simp add: b tx_val_samples thr_10 sale_p_def)
  from a c show ?thesis by (simp add: now_env0)
qed

text \<open>
  Claim C7, amended. A transaction whose timestamp (\<open>utime\<close>, or \<open>time\<close> when
  \<open>utime\<close> is absent or \<open>0\<close>) is not \<open>0\<close> and lies more than 24 hours before the
  current time is never the match of the scan, whatever its value and sender; a list of
  such transactions only gives no match.
\<close>

theorem scan_skips_old:
  "(utime_of t \<noteq> 0 \<and> now - utime_of t > 60 * 60 * 24 \<longrightarrow> scan sn now sale ts \<noteq> Some t) \<and>
   ((\<forall>u \<in> set ts. utime_of u \<noteq> 0 \<and> now - utime_of u > 60 * 60 * 24) \<longrightarrow>
      scan sn now sale ts = None)"
proof -
  have a: "scan sn now sale ts \<noteq> Some t" if "utime_of t \<noteq> 0" "now - utime_of t > 60 * 60 * 24"
  proof
    assume "scan sn now sale ts = Some t"
    then have "\<not> too_old now t" by (simp add: scan_SomeD)
    with that show False by (simp add: too_old_def)
  qed
  have b: "scan sn now sale ts = None"
    if "\<forall>u \<in> set ts. utime_of u \<noteq> 0 \<and> now - utime_of u > 60 * 60 * 24"
    using that by (induction ts) (simp_all add: too_old_def)
  from a b show ?thesis by blast
qed

theorem scan_skips_old_witness:
  "utime_of tx_stale = 1600000000 \<and> utime_of tx_stale \<noteq> 0 \<and>
   now_ms env0 div 1000 - utime_of tx_stale > 60 * 60 * 24 \<and>
   fle (fsub (sl_cost sale_p) eps) (tx_val dec_digits tx_stale) \<and>
   scan dec_digits (now_ms env0 div 1000) sale_p [tx_stale, tx_ok] \<noteq> Some tx_stale \<and>
   scan dec_digits (now_ms env0 div 1000) sale_p [tx_stale, tx_stale] = None"
proof -
  have u: "utime_of tx_stale = 1600000000"
    by (simp add: utime_of_def or_int_def tx_stale_def mk_tx_def)
  have v: "fle (fsub (sl_cost sale_p) eps) (tx_val dec_digits tx_stale)"
    by (simp add: tx_val_samples sale_p_def thr_10)
  have a: "now_ms env0 div 1000 - utime_of tx_stale > 60 * 60 * 24"
    by (simp add: u now_env0)
  note i1 = scan_skips_old [where t = tx_stale and now = "now_ms env0 div 1000"
      and sn = dec_digits and sale = sale_p and ts = "[tx_stale, tx_ok]"]
  note i2 = scan_skips_old [where t = tx_stale and now = "now_ms env0 div 1000"
      and sn = dec_digits and sale = sale_p and ts = "[tx_stale, tx_stale]"]
  have r1: "scan dec_digits (now_ms env0 div 1000) sale_p [tx_stale, tx_ok] \<noteq> Some tx_stale"
    using i1 [THEN conjunct1] u a by simp
  have r2: "scan dec_digits (now_ms env0 div 1000) sale_p [tx_stale, tx_stale] = None"
    using i2 [THEN conjunct2] u a by simp
  from u v a r1 r2 show ?thesis by simp
qed

text \<open>
  Claim C8. For a sale that is not yet confirmed, a failed lookup by hash gives the same
  answer as a request without hash (the scan). When the query for recent transactions is
  unavailable the sale is marked \<open>pending_check\<close> and the answer is
  \<open>{ok:false, reason:'txs_unavailable'}\<close>; when the scan ends without a match the sale
  is marked \<open>pending_check\<close> and the answer is \<open>{ok:false, reason:'not_found'}\<close>.
\<close>

theorem chain_failures_soft:
  assumes "sales s saleId = Some sale" and "sl_status sale \<noteq> Confirmed"
    and "txHash = None \<or> txHash = Some [] \<or> (\<exists>h. txHash = Some h \<and> lookup_failed ch h)"
  shows "confirmSale sn e ch saleId txHash s = confirmSale sn e ch saleId None s \<and>
         (txs_unavailable ch (sl_seller sale) \<longrightarrow>
            confirmSale sn e ch saleId txHash s =
              (Resp 200 (NotOk ''txs_unavailable''),
               s \<lparr> sales := (sales s)(saleId \<mapsto> sale \<lparr> sl_status := PendingCheck \<rparr>) \<rparr>)) \<and>
         (\<not> txs_unavailable ch (sl_seller sale) \<and>
          scan sn (now_ms e div 1000) sale (recent_txs ch (sl_seller sale)) = None \<longrightarrow>
            confirmSale sn e ch saleId txHash s =
              (Resp 200 (NotOk ''not_found''),
               s \<lparr> sales := (sales s)(saleId \<mapsto> sale \<lparr> sl_status := PendingCheck \<rparr>) \<rparr>))"
proof -
  have sp: "confirmSale sn e ch saleId txHash s = scan_path sn e ch saleId sale s"
    using assms by (auto simp: confirm_no_hash confirm_failed_lookup confirmSale_def direct_path_failed)
  have nh: "confirmSale sn e ch saleId None s = scan_path sn e ch saleId sale s"
    using assms(1,2) by (rule confirm_no_hash)
  show ?thesis
    by (simp add: sp nh scan_path_unavailable scan_path_available set_status_def)
qed

theorem chain_failures_soft_witness:
  "sales store0 ''s1'' = Some sale_p \<and> sl_status sale_p \<noteq> Confirmed \<and>
   lookup_failed (mk_chain None None) ''h1'' \<and>
   txs_unavailable (mk_chain None None) (sl_seller sale_p) \<and>
   confirmSale dec_digits env0 (mk_chain None None) ''s1'' (Some ''h1'') store0 =
     (Resp 200 (NotOk ''txs_unavailable''),
      store0 \<lparr> sales := (sales store0)(''s1'' \<mapsto> sale_p \<lparr> sl_status := PendingCheck \<rparr>) \<rparr>) \<and>
   lookup_failed (mk_chain None (Some (listed [tx_low]))) ''h1'' \<and>
   \<not> txs_unavailable (mk_chain None (Some (listed [tx_low]))) (sl_seller sale_p) \<and>
   scan dec_digits (now_ms env0 div 1000) sale_p
     (recent_txs (mk_chain None (Some (listed [tx_low]))) (sl_seller sale_p)) = None \<and>
   confirmSale dec_digits env0 (mk_chain None (Some (listed [tx_low]))) ''s1'' (Some ''h1'') store0 =
     (Resp 200 (NotOk ''not_found''),
      store0 \<lparr> sales := (sales store0)(''s1'' \<mapsto> sale_p \<lparr> sl_status := PendingCheck \<rparr>) \<rparr>)"
proof -
  have c: "lookup_failed (mk_chain None rs) ''h1''" for rs
    by (simp add: lookup_failed_def mk_chain_def)
  have d: "txs_unavailable (mk_chain None None) (sl_seller sale_p)"
    by (simp add: txs_unavailable_def mk_chain_def)
  note d' = txs_available_listed [of None "[tx_low]" "sl_seller sale_p"]
  note r = recent_txs_listed [of None "[tx_low]" "sl_seller sale_p"]
  have sc: "scan dec_digits (now_ms env0 div 1000) sale_p [tx_low] = None"
    by (simp add: not_too_old_samples tx_val_samples sale_p_def thr_10)
  have h: "Some ''h1'' = None \<or> Some ''h1'' = Some [] \<or>
      (\<exists>h. Some ''h1'' = Some h \<and> lookup_failed (mk_chain None rs) h)" for rs
    using c by simp
  note u = chain_failures_soft [OF store0_sale sale_p_pending h,
      where sn = dec_digits and e = env0, of None]
  note n = chain_failures_soft [OF store0_sale sale_p_pending h,
      where sn = dec_digits and e = env0, of "Some (listed [tx_low])"]
  have r1: "confirmSale dec_digits env0 (mk_chain None None) ''s1'' (Some ''h1'') store0 =
     (Resp 200 (NotOk ''txs_unavailable''),
      store0 \<lparr> sales := (sales store0)(''s1'' \<mapsto> sale_p \<lparr> sl_status := PendingCheck \<rparr>) \<rparr>)"
    using u d by blast
  have r2: "confirmSale dec_digits env0 (mk_chain None (Some (listed [tx_low]))) ''s1'' (Some ''h1'') store0 =
     (Resp 200 (NotOk ''not_found''),
      store0 \<lparr> sales := (sales store0)(''s1'' \<mapsto> sale_p \<lparr> sl_status := PendingCheck \<rparr>) \<rparr>)"
    using n d' sc unfolding r by blast
  from store0_sale sale_p_pending c d d' sc r r1 r2 show ?thesis by simp
qed

subsection \<open>Supply of a listing token\<close>

lemma finalize_tokens:
  "tokens s (sl_tokenId sale) = Some tk \<Longrightarrow>
   tokens (snd (finalize e saleId sale h s)) (sl_tokenId sale) =
     Some (apply_purchase tk (sl_amountTokens sale))"
  by (simp add: finalize_eq finalized_def)

lemma rem_of_Fin: "remainingSupply tok = Some (Fin r) \<Longrightarrow> rem_of tok = Fin r"
  by (simp add: rem_of_def or_number_Fin0)

lemma apply_purchase_listing:
  "tk_type tok = ''listing'' \<Longrightarrow>
   apply_purchase tok a = tok \<lparr> remainingSupply := Some (fmax (Fin 0) (fsub (rem_of tok) a)) \<rparr>"
  by (simp add: apply_purchase_def rem_of_def)

lemma purchases_Cons: "purchases tok (a # amts) = purchases (apply_purchase tok a) amts"
  by (simp add: purchases_def)

lemma purchases_snoc: "purchases tok (amts @ [a]) = apply_purchase (purchases tok amts) a"
  by (simp add: purchases_def)

lemma purchases_Nil: "purchases tok [] = tok"
  by (simp add: purchases_def)

text \<open>One purchase of a positive amount against a remaining supply that is a double.\<close>

lemma listing_step:
  assumes "0 \<le> r" and "rd r = Fin r" and "0 < a"
  shows "\<exists>r'. fmax (Fin 0) (fsub (Fin r) (Fin a)) = Fin r' \<and> 0 \<le> r' \<and> r' \<le> r \<and>
           rd r' = Fin r' \<and> Fin r' = (if r \<le> a then Fin 0 else rd (r - a))"
proof -
  have s: "fsub (Fin r) (Fin a) = rd (r - a)" by (simp add: fsub_def)
  consider "r - a = 0" | "r - a < 0" | "0 < r - a" by linarith
  then show ?thesis
  proof cases
    case 1
    then have "rd (r - a) = Fin 0" by (simp only: rd_0)
    then have "fmax (Fin 0) (fsub (Fin r) (Fin a)) = Fin 0" unfolding s by (simp add: fmax_def)
    with 1 assms(1) show ?thesis by (simp add: rd_0)
  next
    case 2
    from rd_neg_sign [OF 2] have "fmax (Fin 0) (rd (r - a)) = Fin 0"
      by (auto simp: fmax_def)
    with 2 assms(1) show ?thesis by (simp add: s rd_0)
  next
    case 3
    have le: "r - a \<le> r" using assms(3) by simp
    from rd_pos_le [OF 3 le assms(2)] obtain r' where
      r': "rd_pos (r - a) = Fin r'" "0 \<le> r'" "r' \<le> r" by blast
    have e: "rd (r - a) = Fin r'" using 3 r'(1) by (simp add: rd_def)
    have i: "rd r' = Fin r'" by (rule rd_idem [OF e])
    have m: "fmax (Fin 0) (rd (r - a)) = Fin r'" using r'(2) by (simp add: e fmax_def)
    show ?thesis using 3 r'(2,3) i m e by (simp add: s)
  qed
qed

lemma apply_purchase_listing_step:
  assumes "tk_type tok = ''listing''" and "remainingSupply tok = Some (Fin r)"
    and "0 \<le> r" and "rd r = Fin r" and "0 < a"
  shows "tk_type (apply_purchase tok (Fin a)) = ''listing'' \<and>
         totalSupply (apply_purchase tok (Fin a)) = totalSupply tok \<and>
         (\<exists>r'. remainingSupply (apply_purchase tok (Fin a)) = Some (Fin r') \<and> 0 \<le> r' \<and>
            r' \<le> r \<and> rd r' = Fin r' \<and> Fin r' = (if r \<le> a then Fin 0 else rd (r - a)))"
  using listing_step [OF assms(3-5)]
  by (simp add: apply_purchase_listing [OF assms(1)] rem_of_Fin [OF assms(2)] assms(1))

lemma purchases_listing:
  assumes "tk_type tok = ''listing''" and "remainingSupply tok = Some (Fin T)"
    and "0 \<le> T" and "rd T = Fin T" and "\<forall>a \<in> set amts. 0 < a"
  shows "tk_type (purchases tok (map Fin amts)) = ''listing'' \<and>
         totalSupply (purchases tok (map Fin amts)) = totalSupply tok \<and>
         (\<exists>r. remainingSupply (purchases tok (map Fin amts)) = Some (Fin r) \<and> 0 \<le> r \<and>
            r \<le> T \<and> rd r = Fin r)"
  using assms(5)
proof (induction amts rule: rev_induct)
  case Nil
  show ?case using assms(1-4) by (simp add: purchases_Nil)
next
  case (snoc a amts)
  let ?p = "purchases tok (map Fin amts)"
  from snoc have ih: "tk_type ?p = ''listing''" "totalSupply ?p = totalSupply tok"
    and "\<exists>r. remainingSupply ?p = Some (Fin r) \<and> 0 \<le> r \<and> r \<le> T \<and> rd r = Fin r"
    by simp_all
  then obtain r where r: "remainingSupply ?p = Some (Fin r)" "0 \<le> r" "r \<le> T" "rd r = Fin r"
    by blast
  have a: "0 < a" using snoc.prems by simp
  from apply_purchase_listing_step [OF ih(1) r(1,2,4) a] ih(2) r(3)
  show ?case by (auto simp: purchases_snoc)
qed

lemma take_pos: "\<forall>a \<in> set amts. 0 < a \<Longrightarrow> \<forall>a \<in> set (take k amts). (0::real) < a"
  by (auto dest: in_set_takeD)

lemma take_Suc_map:
  "k < length amts \<Longrightarrow> map Fin (take (Suc k) amts) = map Fin (take k amts) @ [Fin (amts ! k)]"
  by (simp add: take_Suc_conv_app_nth)

text \<open>Whole numbers up to \<open>2\<^sup>5\<^sup>3\<close> are subtracted without rounding.\<close>

lemma rd_Ints: "x \<in> \<int> \<Longrightarrow> 0 \<le> x \<Longrightarrow> x \<le> 2 ^ 53 \<Longrightarrow> rd x = Fin x"
proof -
  assume x: "x \<in> \<int>" "0 \<le> x" "x \<le> 2 ^ 53"
  then obtain n :: int where n: "x = of_int n" by (auto elim: Ints_cases)
  have "of_int n \<le> (of_int (2 ^ 53) :: real)" using x(3) n by simp
  then have "n \<le> 2 ^ 53" by (simp only: of_int_le_iff)
  moreover have "0 \<le> n" using x(2) n by simp
  ultimately have "\<bar>n\<bar> \<le> 2 ^ 53" by simp
  from rd_of_int [OF this] n show ?thesis by simp
qed

lemma purchases_listing_whole:
  assumes "tk_type tok = ''listing''" and "remainingSupply tok = Some (Fin r)"
    and "0 \<le> r" and "r \<le> 2 ^ 53" and "r \<in> \<int>" and "\<forall>a \<in> set amts. 0 < a \<and> a \<in> \<int>"
  shows "remainingSupply (purchases tok (map Fin amts)) = Some (Fin (max 0 (r - sum_list amts)))"
  using assms
proof (induction amts arbitrary: tok r)
  case Nil
  then show ?case by (simp add: purchases_Nil)
next
  case (Cons a amts)
  let ?tok = "apply_purchase tok (Fin a)"
  have a: "0 < a" "a \<in> \<int>" using Cons.prems(6) by simp_all
  have dr: "rd r = Fin r" using Cons.prems(3-5) by (simp add: rd_Ints)
  from apply_purchase_listing_step [OF Cons.prems(1,2,3) dr a(1)]
  obtain r' where t: "tk_type ?tok = ''listing''" and r': "remainingSupply ?tok = Some (Fin r')"
      "0 \<le> r'" "r' \<le> r" "Fin r' = (if r \<le> a then Fin 0 else rd (r - a))"
    by blast
  have v: "r' = max 0 (r - a)"
  proof (cases "r \<le> a")
    case True
    with r'(4) show ?thesis by simp
  next
    case False
    have "r - a \<in> \<int>" using Cons.prems(5) a(2) by simp
    moreover have "0 \<le> r - a" "r - a \<le> 2 ^ 53" using False a(1) Cons.prems(4) by simp_all
    ultimately have "rd (r - a) = Fin (r - a)" by (rule rd_Ints)
    with r'(4) False show ?thesis by simp
  qed
  have i: "r' \<in> \<int>" using v Cons.prems(5) a(2) by (simp add: max_def)
  have b: "r' \<le> 2 ^ 53" using r'(3) Cons.prems(4) by simp
  have rest: "\<forall>a \<in> set amts. 0 < a \<and> a \<in> \<int>" using Cons.prems(6) by simp
  have nn: "0 \<le> sum_list amts" using rest by (simp add: sum_list_nonneg less_imp_le)
  have "remainingSupply (purchases ?tok (map Fin amts)) = Some (Fin (max 0 (r' - sum_list amts)))"
    by (rule Cons.IH [OF t r'(1,2) b i rest])
  moreover have "max 0 (r' - sum_list amts) = max 0 (r - (a + sum_list amts))"
    using nn a(1) by (simp add: v max_def)
  ultimately show ?case by (simp add: purchases_Cons)
qed

lemma created_listing:
  assumes "created (create_token sn w e rq s) = Some tok" and "cr_type rq = ''listing''"
  shows "tk_type tok = ''listing'' \<and> totalSupply tok = Some (to_number sn (cr_totalSupply rq)) \<and>
         remainingSupply tok = Some (to_number sn (cr_totalSupply rq))"
  using assms
  by (auto simp: created_def create_token_def Let_def split: if_splits)

lemma thr_15: "fsub (Fin 15) eps = Fin (8444249245024685 / 562949953421312)"
  unfolding eps_def by code_simp

lemma rd_tenth: "rd (1 / 10) = Fin (3602879701896397 / 36028797018963968)"
  by code_simp

lemma drift_tenths:
  "remainingSupply (purchases token_1 (replicate 10 (rd (1 / 10)))) = Some (Fin (5 / 2 ^ 55))"
  by code_simp

lemma token_l_6_6:
  "remainingSupply (apply_purchase (apply_purchase token_l (Fin 6)) (Fin 6)) = Some (Fin 0)"
  by code_simp

lemma created_req_neg:
  "map_option remainingSupply (created (create_token dec_digits ''EQowner'' env0 req_neg store_e))
     = Some (Some (Fin (- 5)))"
  by code_simp

lemma created_req_l:
  "created (create_token dec_digits ''EQowner'' env0 req_l store_e) =
     Some (token_l \<lparr> tk_createdAt := 1700000000000 \<rparr>)"
  by (simp add: created_def create_token_def req_l_def Let_def or_str_def truthy_str_def
      token_l_def env0_def truthy_num_def rd_numeral) code_simp

text \<open>
  Claim C4, as stated, fails. Two sales of 6 tokens quoted against a supply of 10 are both
  confirmed (a quote does not reserve supply): the remaining supply is floored at \<open>0\<close>
  by line 162, not \<open>10 - 12\<close>. A listing created with the total supply \<open>-5\<close> starts
  with a negative remaining supply. And the subtraction of line 162 is rounded: ten
  purchases of \<open>0.1\<close> against a supply of \<open>1\<close> leave \<open>5 \<times> 2\<^sup>-\<^sup>5\<^sup>5\<close>, whereas the supply
  minus the total of the ten amounts is negative.
\<close>

theorem listing_supply_floored:
  "tokens store_2 ''t1'' = Some token_l \<and> totalSupply token_l = Some (Fin 10) \<and>
   remainingSupply token_l = Some (Fin 10) \<and>
   sl_amountTokens sale_6a = Fin 6 \<and> sl_amountTokens sale_6b = Fin 6 \<and>
   fst (confirmSale dec_digits env0 chain_15 ''s1'' None store_2) =
     Resp 200 (OkMessage ''sale_confirmed'') \<and>
   fst (confirmSale dec_digits env1 chain_15 ''s2'' None
          (snd (confirmSale dec_digits env0 chain_15 ''s1'' None store_2))) =
     Resp 200 (OkMessage ''sale_confirmed'') \<and>
   map_option remainingSupply
     (tokens (snd (confirmSale dec_digits env1 chain_15 ''s2'' None
                (snd (confirmSale dec_digits env0 chain_15 ''s1'' None store_2)))) ''t1'')
     = Some (Some (Fin 0)) \<and>
   (0::real) \<noteq> 10 - (6 + 6) \<and>
   map_option remainingSupply (created (create_token dec_digits ''EQowner'' env0 req_neg store_e))
     = Some (Some (Fin (- 5))) \<and>
   totalSupply token_1 = Some (Fin 1) \<and> remainingSupply token_1 = Some (Fin 1) \<and>
   rd (1 / 10) = Fin (3602879701896397 / 36028797018963968) \<and>
   remainingSupply (purchases token_1 (replicate 10 (rd (1 / 10)))) = Some (Fin (5 / 2 ^ 55)) \<and>
   (1 - 10 * (3602879701896397 / 36028797018963968) :: real) < 0 \<and>
   (5 / 2 ^ 55 :: real) \<noteq> max 0 (1 - 10 * (3602879701896397 / 36028797018963968))"
proof -
  let ?s1 = "snd (confirmSale dec_digits env0 chain_15 ''s1'' None store_2)"
  let ?s2 = "snd (confirmSale dec_digits env1 chain_15 ''s2'' None ?s1)"
  have tk: "tokens store_2 ''t1'' = Some token_l" by (simp add: store_2_def store0_def)
  have tl: "totalSupply token_l = Some (Fin 10)" "remainingSupply token_l = Some (Fin 10)"
    by (simp_all add: token_l_def)
  have t1: "totalSupply token_1 = Some (Fin 1)" "remainingSupply token_1 = Some (Fin 1)"
    by (simp_all add: token_1_def)
  have am: "sl_amountTokens sale_6a = Fin 6" "sl_amountTokens sale_6b = Fin 6"
    "sl_tokenId sale_6a = ''t1''" "sl_tokenId sale_6b = ''t1''"
    "sl_status sale_6a \<noteq> Confirmed" "sl_status sale_6b \<noteq> Confirmed"
    "sl_cost sale_6a = Fin 15" "sl_cost sale_6b = Fin 15"
    by (simp_all add: sale_6a_def sale_6b_def sale_p_def)
  have sa: "sales store_2 ''s1'' = Some sale_6a" "sales store_2 ''s2'' = Some sale_6b"
    by (simp_all add: store_2_def)
  have un: "\<not> txs_unavailable chain_15 seller" "recent_txs chain_15 seller = [tx_15]" for seller
    by (simp_all add: chain_15_def txs_available_listed recent_txs_listed)
  have fresh: "\<not> too_old (now_ms env0 div 1000) tx_15" "\<not> too_old (now_ms env1 div 1000) tx_15"
    by (simp_all add: too_old_def utime_of_def or_int_def tx_15_def mk_tx_def env0_def env1_def)
  have sc: "scan dec_digits (now_ms env0 div 1000) sale_6a (recent_txs chain_15 (sl_seller sale_6a))
      = Some tx_15"
    "scan dec_digits (now_ms env1 div 1000) sale_6b (recent_txs chain_15 (sl_seller sale_6b))
      = Some tx_15"
    by (simp_all add: un fresh am thr_15 tx_val_samples)
  have c1: "confirmSale dec_digits env0 chain_15 ''s1'' None store_2 =
      (Resp 200 (OkMessage ''sale_confirmed''),
       finalized env0 ''s1'' sale_6a (found_hash tx_15) store_2)"
    by (rule confirm_scan [OF sa(1) am(5) un(1) sc(1)])
  have s1_sales: "sales ?s1 ''s2'' = Some sale_6b"
    by (simp add: c1 finalized_def sa)
  have s1_tok: "tokens ?s1 ''t1'' = Some (apply_purchase token_l (Fin 6))"
    by (simp add: c1 finalized_def am tk)
  have c2: "confirmSale dec_digits env1 chain_15 ''s2'' None ?s1 =
      (Resp 200 (OkMessage ''sale_confirmed''),
       finalized env1 ''s2'' sale_6b (found_hash tx_15) ?s1)"
    by (rule confirm_scan [OF s1_sales am(6) un(1) sc(2)])
  have s2_tok: "tokens ?s2 ''t1'' = Some (apply_purchase (apply_purchase token_l (Fin 6)) (Fin 6))"
    unfolding c2 by (simp add: finalized_def am s1_tok)
  have f1: "fst (confirmSale dec_digits env0 chain_15 ''s1'' None store_2) =
     Resp 200 (OkMessage ''sale_confirmed'')"
    unfolding c1 by simp
  have f2: "fst (confirmSale dec_digits env1 chain_15 ''s2'' None ?s1) =
     Resp 200 (OkMessage ''sale_confirmed'')"
    unfolding c2 by simp
  have r: "map_option remainingSupply (tokens ?s2 ''t1'') = Some (Some (Fin 0))"
    by (simp add: s2_tok token_l_6_6)
  have n: "(1 - 10 * (3602879701896397 / 36028797018963968) :: real) < 0" by simp
  have m: "(5 / 2 ^ 55 :: real) \<noteq> max 0 (1 - 10 * (3602879701896397 / 36028797018963968))"
    by simp
  have z: "(0::real) \<noteq> 10 - (6 + 6)" by simp
  from tk tl am(1,2) f1 f2 r z created_req_neg t1 rd_tenth drift_tenths n m
  show ?thesis by blast
qed

text \<open>
  Claim C4, amended. For a listing token created with a positive total supply \<open>T\<close> and
  any confirmed purchases of positive amounts: \<open>totalSupply\<close> stays \<open>T\<close>;
  \<open>remainingSupply\<close> starts at \<open>T\<close>, lies between \<open>0\<close> and \<open>T\<close> after every prefix
  of the purchases, and no purchase increases it. A purchase of \<open>a\<close> against the
  remaining supply \<open>r\<close> leaves \<open>0\<close> when \<open>r \<le> a\<close> and otherwise the double nearest
  to \<open>r - a\<close>; so \<open>remainingSupply\<close> is \<open>max 0 (T - A)\<close> for the total \<open>A\<close> of the
  amounts when \<open>T\<close> and the amounts are whole numbers and \<open>T \<le> 2\<^sup>5\<^sup>3\<close>, where no
  subtraction is rounded. A confirmed sale applies \<open>apply_purchase\<close> with the sale's
  amount to the stored token.
\<close>

theorem listing_supply_invariant:
  assumes "created (create_token sn w e rq s) = Some tok" and "cr_type rq = ''listing''"
    and "to_number sn (cr_totalSupply rq) = Fin T" and "is_double T" and "0 < T"
    and "\<forall>a \<in> set amts. 0 < a"
  shows "totalSupply tok = Some (Fin T) \<and> remainingSupply tok = Some (Fin T) \<and>
         totalSupply (purchases tok (map Fin amts)) = Some (Fin T) \<and>
         (\<forall>k \<le> length amts.
            fle (Fin 0) (rem_of (purchases tok (map Fin (take k amts)))) \<and>
            fle (rem_of (purchases tok (map Fin (take k amts)))) (Fin T)) \<and>
         (\<forall>k < length amts.
            fle (rem_of (purchases tok (map Fin (take (Suc k) amts))))
                (rem_of (purchases tok (map Fin (take k amts))))) \<and>
         (\<forall>k < length amts. \<exists>r.
            rem_of (purchases tok (map Fin (take k amts))) = Fin r \<and>
            remainingSupply (purchases tok (map Fin (take (Suc k) amts))) =
              Some (if r \<le> amts ! k then Fin 0 else rd (r - amts ! k))) \<and>
         (T \<in> \<int> \<and> T \<le> 2 ^ 53 \<and> (\<forall>a \<in> set amts. a \<in> \<int>) \<longrightarrow>
            remainingSupply (purchases tok (map Fin amts)) = Some (Fin (max 0 (T - sum_list amts)))) \<and>
         (tokens s' (sl_tokenId sale) = Some tk \<longrightarrow>
            tokens (snd (finalize e' saleId sale h s')) (sl_tokenId sale) =
              Some (apply_purchase tk (sl_amountTokens sale)))"
proof -
  let ?P = "\<lambda>k. purchases tok (map Fin (take k amts))"
  from created_listing [OF assms(1,2)] assms(3)
  have c: "tk_type tok = ''listing''" "totalSupply tok = Some (Fin T)"
    "remainingSupply tok = Some (Fin T)"
    by simp_all
  have T0: "0 \<le> T" using assms(5) by simp
  have dT: "rd T = Fin T" using assms(4) by (simp add: is_double_def)
  have pre: "tk_type (?P k) = ''listing'' \<and> totalSupply (?P k) = Some (Fin T) \<and>
      (\<exists>r. remainingSupply (?P k) = Some (Fin r) \<and> 0 \<le> r \<and> r \<le> T \<and> rd r = Fin r)" for k
    using purchases_listing [OF c(1,3) T0 dT take_pos [OF assms(6)], of k] c(2) by simp
  have whole: "totalSupply (purchases tok (map Fin amts)) = Some (Fin T)"
    using pre [of "length amts"] by simp
  have bounds: "fle (Fin 0) (rem_of (?P k)) \<and> fle (rem_of (?P k)) (Fin T)" for k
    using pre [of k] by (auto simp: rem_of_Fin)
  have step: "\<exists>r. rem_of (?P k) = Fin r \<and>
      remainingSupply (?P (Suc k)) = Some (if r \<le> amts ! k then Fin 0 else rd (r - amts ! k)) \<and>
      fle (rem_of (?P (Suc k))) (rem_of (?P k))"
    if "k < length amts" for k
  proof -
    from pre [of k] obtain r where l: "tk_type (?P k) = ''listing''"
      and r: "remainingSupply (?P k) = Some (Fin r)" "0 \<le> r" "rd r = Fin r"
      by blast
    have a: "0 < amts ! k" using assms(6) that by simp
    have n: "?P (Suc k) = apply_purchase (?P k) (Fin (amts ! k))"
      by (simp only: take_Suc_map [OF that] purchases_snoc)
    from apply_purchase_listing_step [OF l r a] obtain r' where
      r': "remainingSupply (?P (Suc k)) = Some (Fin r')" "r' \<le> r"
        "Fin r' = (if r \<le> amts ! k then Fin 0 else rd (r - amts ! k))"
      unfolding n by blast
    have "remainingSupply (?P (Suc k)) = Some (if r \<le> amts ! k then Fin 0 else rd (r - amts ! k))"
      using r'(1,3) by simp
    moreover have "fle (rem_of (?P (Suc k))) (rem_of (?P k))"
      using r'(2) by (simp only: rem_of_Fin [OF r'(1)] rem_of_Fin [OF r(1)] fle.simps)
    ultimately show ?thesis using rem_of_Fin [OF r(1)] by blast
  qed
  have whole_nums: "T \<in> \<int> \<and> T \<le> 2 ^ 53 \<and> (\<forall>a \<in> set amts. a \<in> \<int>) \<longrightarrow>
      remainingSupply (purchases tok (map Fin amts)) = Some (Fin (max 0 (T - sum_list amts)))"
  proof (intro impI, elim conjE)
    assume "T \<in> \<int>" "T \<le> 2 ^ 53" "\<forall>a \<in> set amts. a \<in> \<int>"
    then show "remainingSupply (purchases tok (map Fin amts)) = Some (Fin (max 0 (T - sum_list amts)))"
      using assms(6) by (intro purchases_listing_whole [OF c(1,3) T0]) simp_all
  qed
  have fin: "tokens s' (sl_tokenId sale) = Some tk \<longrightarrow>
            tokens (snd (finalize e' saleId sale h s')) (sl_tokenId sale) =
              Some (apply_purchase tk (sl_amountTokens sale))"
    by (simp add: finalize_tokens)
  from c(2,3) whole bounds step whole_nums fin show ?thesis by blast
qed

theorem listing_supply_invariant_witness:
  "created (create_token dec_digits ''EQowner'' env0 req_l store_e) =
     Some (token_l \<lparr> tk_createdAt := 1700000000000 \<rparr>) \<and>
   cr_type req_l = ''listing'' \<and> to_number dec_digits (cr_totalSupply req_l) = Fin 10 \<and>
   is_double 10 \<and> (0::real) < 10 \<and> (0::real) < 4 \<and> (0::real) < 3 \<and> (0::real) < 5 \<and>
   (10::real) \<in> \<int> \<and> (10::real) \<le> 2 ^ 53 \<and> (4::real) \<in> \<int> \<and> (3::real) \<in> \<int> \<and> (5::real) \<in> \<int> \<and>
   totalSupply (purchases (token_l \<lparr> tk_createdAt := 1700000000000 \<rparr>) [Fin 4, Fin 3, Fin 5])
     = Some (Fin 10) \<and>
   remainingSupply (purchases (token_l \<lparr> tk_createdAt := 1700000000000 \<rparr>) [Fin 4, Fin 3, Fin 5])
     = Some (Fin 0) \<and>
   remainingSupply (purchases (token_l \<lparr> tk_createdAt := 1700000000000 \<rparr>) [Fin 4, Fin 3])
     = Some (Fin 3) \<and>
   fle (rem_of (purchases (token_l \<lparr> tk_createdAt := 1700000000000 \<rparr>) [Fin 4, Fin 3]))
       (rem_of (purchases (token_l \<lparr> tk_createdAt := 1700000000000 \<rparr>) [Fin 4])) \<and>
   fle (Fin 0) (rem_of (purchases (token_l \<lparr> tk_createdAt := 1700000000000 \<rparr>) [Fin 4, Fin 3, Fin 5])) \<and>
   fle (rem_of (purchases (token_l \<lparr> tk_createdAt := 1700000000000 \<rparr>) [Fin 4, Fin 3, Fin 5])) (Fin 10) \<and>
   tokens store0 (sl_tokenId sale_p) = Some token_l \<and>
   tokens (snd (finalize env0 ''s1'' sale_p None store0)) (sl_tokenId sale_p) =
     Some (apply_purchase token_l (sl_amountTokens sale_p))"
proof -
  let ?tok = "token_l \<lparr> tk_createdAt := 1700000000000 \<rparr>"
  have b: "cr_type req_l = ''listing''" "to_number dec_digits (cr_totalSupply req_l) = Fin 10"
    by (simp_all add: req_l_def rd_numeral)
  have d: "is_double 10" by (simp add: is_double_def rd_numeral)
  have p: "\<forall>a \<in> set [4, 3, 5 :: real]. 0 < a" "\<forall>a \<in> set [4, 3 :: real]. 0 < a" by simp_all
  have T: "(0::real) < 10" by simp
  have tk: "tokens store0 (sl_tokenId sale_p) = Some token_l"
    by (simp add: store0_def sale_p_def)
  note i1 = listing_supply_invariant [OF created_req_l b d T p(1), where s' = store0
      and sale = sale_p and tk = token_l and e' = env0 and saleId = "''s1''" and h = None]
  note i2 = listing_supply_invariant [OF created_req_l b d T p(2)]
  have r1: "totalSupply (purchases ?tok [Fin 4, Fin 3, Fin 5]) = Some (Fin 10)"
    using i1 [THEN conjunct2, THEN conjunct2, THEN conjunct1] by simp
  have r2: "remainingSupply (purchases ?tok [Fin 4, Fin 3, Fin 5]) = Some (Fin 0)"
    using i1 [THEN conjunct2, THEN conjunct2, THEN conjunct2, THEN conjunct2, THEN conjunct2,
        THEN conjunct2, THEN conjunct1]
    by simp
  have r2': "remainingSupply (purchases ?tok [Fin 4, Fin 3]) = Some (Fin 3)"
    using i2 [THEN conjunct2, THEN conjunct2, THEN conjunct2, THEN conjunct2, THEN conjunct2,
        THEN conjunct2, THEN conjunct1]
    by simp
  have r3: "fle (rem_of (purchases ?tok [Fin 4, Fin 3])) (rem_of (purchases ?tok [Fin 4]))"
    using i1 [THEN conjunct2, THEN conjunct2, THEN conjunct2, THEN conjunct2, THEN conjunct1,
        rule_format, of 1]
    by (simp add: numeral_2_eq_2)
  have r4: "fle (Fin 0) (rem_of (purchases ?tok [Fin 4, Fin 3, Fin 5])) \<and>
      fle (rem_of (purchases ?tok [Fin 4, Fin 3, Fin 5])) (Fin 10)"
    using i1 [THEN conjunct2, THEN conjunct2, THEN conjunct2, THEN conjunct1,
        rule_format, of 3]
    by simp
  have r5: "tokens (snd (finalize env0 ''s1'' sale_p None store0)) (sl_tokenId sale_p) =
     Some (apply_purchase token_l (sl_amountTokens sale_p))"
    using i1 tk by blast
  from created_req_l b d r1 r2 r2' r3 r4 tk r5 show ?thesis by simp
qed

subsection \<open>Price of a user token\<close>

lemma round_half_close:
  fixes y :: real
  shows "\<bar>of_int \<lfloor>y + 1 / 2\<rfloor> - y\<bar> \<le> 1 / 2"
proof -
  have "of_int \<lfloor>y + 1 / 2\<rfloor> \<le> y + 1 / 2" by (rule of_int_floor_le)
  moreover have "y + 1 / 2 < of_int \<lfloor>y + 1 / 2\<rfloor> + 1" by linarith
  ultimately show ?thesis by linarith
qed

lemma round_scaled_close:
  fixes y :: real
  shows "\<bar>of_int \<lfloor>y * 10 ^ 9 + 1 / 2\<rfloor> / 10 ^ 9 - y\<bar> \<le> 1 / (2 * 10 ^ 9)"
proof -
  have "\<bar>of_int \<lfloor>y * 10 ^ 9 + 1 / 2\<rfloor> / 10 ^ 9 - y\<bar> =
      \<bar>of_int \<lfloor>y * 10 ^ 9 + 1 / 2\<rfloor> - y * 10 ^ 9\<bar> / 10 ^ 9"
    by (simp add: field_simps)
  also have "\<dots> \<le> (1 / 2) / 10 ^ 9"
    by (rule divide_right_mono [OF round_half_close]) simp
  finally show ?thesis by simp
qed

lemma toFixed9_grid:
  assumes "\<bar>x\<bar> < 10 ^ 21"
  shows "\<exists>k::int. toFixed9 (Fin x) = rd (of_int k / 10 ^ 9) \<and>
           \<bar>of_int k / 10 ^ 9 - x\<bar> \<le> 1 / (2 * 10 ^ 9)"
proof (cases "x < 0")
  case True
  let ?n = "\<lfloor>(- x) * 10 ^ 9 + 1 / 2\<rfloor>"
  have "toFixed9 (Fin x) = fneg (rd (of_int ?n / 10 ^ 9))"
    using True assms by (simp add: toFixed9_def)
  also have "\<dots> = rd (of_int (- ?n) / 10 ^ 9)"
    by (simp add: rd_minus [symmetric])
  finally have a: "toFixed9 (Fin x) = rd (of_int (- ?n) / 10 ^ 9)" .
  have "\<bar>of_int (- ?n) / 10 ^ 9 - x\<bar> = \<bar>of_int ?n / 10 ^ 9 - (- x)\<bar>" by simp
  also have "\<dots> \<le> 1 / (2 * 10 ^ 9)" by (rule round_scaled_close)
  finally show ?thesis using a by blast
next
  case False
  let ?n = "\<lfloor>x * 10 ^ 9 + 1 / 2\<rfloor>"
  have a: "toFixed9 (Fin x) = rd (of_int ?n / 10 ^ 9)"
    using False assms by (simp add: toFixed9_def)
  have "\<bar>of_int ?n / 10 ^ 9 - x\<bar> \<le> 1 / (2 * 10 ^ 9)" by (rule round_scaled_close)
  with a show ?thesis by blast
qed

lemma created_token_u:
  "created (create_token dec_digits ''EQowner'' env0 req_u store_e) = Some token_u"
  by code_simp

lemma token_z_val:
  "token_z = token_u \<lparr> supplyIssued := Some (Fin 1), dynamicPrice := Some (Fin 0) \<rparr>"
  by code_simp

lemma token_types:
  "tk_type token_u \<noteq> ''listing''" "tk_type token_z \<noteq> ''listing''"
  "tk_type token_p \<noteq> ''listing''" "tk_type token_n \<noteq> ''listing''"
  by (simp_all add: token_z_val token_p_def token_n_def) (simp_all add: token_u_def)

lemma rd_price_samples:
  "rd (102 / 1000) = Fin (7349874591868649 / 72057594037927936)"
  "rd (1005 / 10 ^ 4) = Fin (3620894100405879 / 36028797018963968)"
  "rd (101507512 / 10 ^ 9) = Fin (3657193545748049 / 36028797018963968)"
  "rd (101507513 / 10 ^ 9) = Fin (1828596790888423 / 18014398509481984)"
  "rd (5 / 1000) = Fin (5764607523034235 / 1152921504606846976)"
  by code_simp+

lemma price_samples:
  "toFixed9 (fmul (or_number (dynamicPrice token_z) (rd (1 / 10)))
      (fadd (Fin 1) (fmul (rd (5 / 1000)) (Fin 4)))) = Fin (7349874591868649 / 72057594037927936)"
  "toFixed9 (fmul (or_number (dynamicPrice token_n) (rd (1 / 10)))
      (fadd (Fin 1) (fmul (rd (5 / 1000)) (Fin 1)))) = Fin (3620894100405879 / 36028797018963968)"
  "toFixed9 (fmul (or_number (dynamicPrice token_p) (rd (1 / 10)))
      (fadd (Fin 1) (fmul (rd (5 / 1000)) (Fin 1)))) = Fin (3657193545748049 / 36028797018963968)"
  "toFixed9 (fmul (Fin 0) (fadd (Fin 1) (fmul (rd (5 / 1000)) (Fin 4)))) = Fin 0"
  "toFixed9 (fmul NaN (fadd (Fin 1) (fmul (rd (5 / 1000)) (Fin 1)))) = NaN"
  by code_simp+

lemma issued_samples:
  "fadd (or_number (supplyIssued token_z) (Fin 0)) (Fin 4) = Fin 5"
  "fadd (or_number (supplyIssued token_p) (Fin 0)) (Fin 1) = Fin 1"
  by code_simp+

lemma user_price:
  "tk_type tok \<noteq> ''listing'' \<Longrightarrow>
   dynamicPrice (apply_purchase tok a) =
     Some (toFixed9 (fmul (or_number (dynamicPrice tok) (rd (1 / 10)))
             (fadd (Fin 1) (fmul (rd (5 / 1000)) a))))"
  by (simp add: apply_purchase_def Let_def)

lemma user_issued:
  "tk_type tok \<noteq> ''listing'' \<Longrightarrow>
   supplyIssued (apply_purchase tok a) = Some (fadd (or_number (supplyIssued tok) (Fin 0)) a)"
  by (simp add: apply_purchase_def Let_def)

text \<open>
  Claim C5, as stated, fails on a user token whose stored price is \<open>0\<close>. Such a token
  arises from the handlers: one created with the price \<open>10\<^sup>-\<^sup>1\<^sup>0\<close> has the price \<open>0\<close>
  after a purchase of one token, by the rounding. The next purchase of \<open>4\<close> tokens starts
  from the default \<open>0.1\<close> of line 166 and not from the stored \<open>0\<close>: the new price is
  \<open>0.102\<close>. A stored price \<open>NaN\<close> is replaced by the default in the same way.
\<close>

theorem user_price_default_used:
  "created (create_token dec_digits ''EQowner'' env0 req_u store_e) = Some token_u \<and>
   tk_type token_u \<noteq> ''listing'' \<and>
   token_z = apply_purchase token_u (Fin 1) \<and>
   dynamicPrice token_z = Some (Fin 0) \<and>
   dynamicPrice (apply_purchase token_z (Fin 4)) =
     Some (Fin (7349874591868649 / 72057594037927936)) \<and>
   rd (102 / 1000) = Fin (7349874591868649 / 72057594037927936) \<and>
   toFixed9 (fmul (Fin 0) (fadd (Fin 1) (fmul (rd (5 / 1000)) (Fin 4)))) = Fin 0 \<and>
   dynamicPrice (apply_purchase token_z (Fin 4)) \<noteq>
     Some (toFixed9 (fmul (Fin 0) (fadd (Fin 1) (fmul (rd (5 / 1000)) (Fin 4))))) \<and>
   map_option dynamicPrice (tokens (snd (finalize env0 ''s1'' sale_p (Some ''h1'') store_z)) ''t1'')
     = Some (Some (Fin (7349874591868649 / 72057594037927936))) \<and>
   dynamicPrice token_n = Some NaN \<and>
   dynamicPrice (apply_purchase token_n (Fin 1)) =
     Some (Fin (3620894100405879 / 36028797018963968)) \<and>
   toFixed9 (fmul NaN (fadd (Fin 1) (fmul (rd (5 / 1000)) (Fin 1)))) = NaN"
proof -
  have p0: "dynamicPrice token_z = Some (Fin 0)" by (simp add: token_z_val)
  have p1: "dynamicPrice (apply_purchase token_z (Fin 4)) =
      Some (Fin (7349874591868649 / 72057594037927936))"
    unfolding user_price [OF token_types(2)] price_samples(1) ..
  have ne: "dynamicPrice (apply_purchase token_z (Fin 4)) \<noteq>
     Some (toFixed9 (fmul (Fin 0) (fadd (Fin 1) (fmul (rd (5 / 1000)) (Fin 4)))))"
    unfolding p1 price_samples(4) by simp
  have tk: "tokens store_z (sl_tokenId sale_p) = Some token_z" "sl_tokenId sale_p = ''t1''"
    "sl_amountTokens sale_p = Fin 4"
    by (simp_all add: store_z_def sale_p_def)
  have f: "map_option dynamicPrice
      (tokens (snd (finalize env0 ''s1'' sale_p (Some ''h1'') store_z)) ''t1'') =
      Some (Some (Fin (7349874591868649 / 72057594037927936)))"
    using finalize_tokens [OF tk(1), of env0 "''s1''" "Some ''h1''"] by (simp add: tk(2,3) p1)
  have n0: "dynamicPrice token_n = Some NaN" by (simp add: token_n_def)
  have n1: "dynamicPrice (apply_purchase token_n (Fin 1)) =
      Some (Fin (3620894100405879 / 36028797018963968))"
    unfolding user_price [OF token_types(4)] price_samples(2) ..
  from created_token_u token_types(1) token_z_def p0 p1 rd_price_samples(1) price_samples(4) ne f
    n0 n1 price_samples(5)
  show ?thesis by blast
qed

text \<open>
  Claim C5, amended. For every token that is not a listing, a confirmed purchase of \<open>a\<close>
  tokens sets \<open>supplyIssued\<close> to the old count plus \<open>a\<close> and \<open>dynamicPrice\<close> to
  \<open>p \<times> (1 + 0.005 a)\<close> kept to 9 decimal places, all in double arithmetic: the old
  count is \<open>0\<close> when the stored one is absent, \<open>0\<close> or \<open>NaN\<close>; \<open>p\<close> is the stored
  price, or the double \<open>0.1\<close> when the stored price is absent, \<open>0\<close> or \<open>NaN\<close>; the
  sum, the two products and \<open>1 + 0.005 a\<close> are each rounded to a double. Keeping 9
  decimal places of a finite \<open>x\<close> below \<open>10\<^sup>2\<^sup>1\<close> in magnitude gives the double nearest
  to a multiple of \<open>10\<^sup>-\<^sup>9\<close> that is within \<open>0.5 \<times> 10\<^sup>-\<^sup>9\<close> of \<open>x\<close>. A confirmed
  sale applies this update with the sale's amount to the stored token.
\<close>

theorem user_purchase_update:
  assumes "tk_type tok \<noteq> ''listing''"
  shows "supplyIssued (apply_purchase tok a) =
           Some (fadd (or_number (supplyIssued tok) (Fin 0)) a) \<and>
         dynamicPrice (apply_purchase tok a) =
           Some (toFixed9 (fmul (or_number (dynamicPrice tok) (rd (1 / 10)))
                            (fadd (Fin 1) (fmul (rd (5 / 1000)) a)))) \<and>
         (supplyIssued tok = Some i \<and> i \<noteq> NaN \<longrightarrow>
            supplyIssued (apply_purchase tok a) = Some (fadd i a)) \<and>
         (supplyIssued tok = None \<or> supplyIssued tok = Some NaN \<longrightarrow>
            supplyIssued (apply_purchase tok a) = Some (fadd (Fin 0) a)) \<and>
         (dynamicPrice tok = Some p \<and> p \<noteq> Fin 0 \<and> p \<noteq> NaN \<longrightarrow>
            dynamicPrice (apply_purchase tok a) =
              Some (toFixed9 (fmul p (fadd (Fin 1) (fmul (rd (5 / 1000)) a))))) \<and>
         (dynamicPrice tok = None \<or> dynamicPrice tok = Some (Fin 0) \<or>
          dynamicPrice tok = Some NaN \<longrightarrow>
            dynamicPrice (apply_purchase tok a) =
              Some (toFixed9 (fmul (rd (1 / 10)) (fadd (Fin 1) (fmul (rd (5 / 1000)) a))))) \<and>
         (dynamicPrice tok = Some (Fin q) \<and> q \<noteq> 0 \<and> a = Fin n \<and>
          rd (5764607523034235 / 1152921504606846976 * n) = Fin m \<and> rd (1 + m) = Fin f \<longrightarrow>
            dynamicPrice (apply_purchase tok a) = Some (toFixed9 (rd (q * f)))) \<and>
         rd (5 / 1000) = Fin (5764607523034235 / 1152921504606846976) \<and>
         rd (1 / 10) = Fin (3602879701896397 / 36028797018963968) \<and>
         (\<bar>x\<bar> < 10 ^ 21 \<longrightarrow>
            (\<exists>k::int. toFixed9 (Fin x) = rd (of_int k / 10 ^ 9) \<and>
               \<bar>of_int k / 10 ^ 9 - x\<bar> \<le> 1 / (2 * 10 ^ 9))) \<and>
         toFixed9 NaN = NaN \<and> toFixed9 PInf = PInf \<and> toFixed9 NInf = NInf \<and>
         (tokens s (sl_tokenId sale) = Some tok \<longrightarrow>
            tokens (snd (finalize e saleId sale h s)) (sl_tokenId sale) =
              Some (apply_purchase tok (sl_amountTokens sale)))"
proof -
  have a1: "supplyIssued (apply_purchase tok a) =
           Some (fadd (or_number (supplyIssued tok) (Fin 0)) a)"
    by (rule user_issued [OF assms])
  have a2: "dynamicPrice (apply_purchase tok a) =
           Some (toFixed9 (fmul (or_number (dynamicPrice tok) (rd (1 / 10)))
                            (fadd (Fin 1) (fmul (rd (5 / 1000)) a))))"
    by (rule user_price [OF assms])
  have b1: "supplyIssued tok = Some i \<and> i \<noteq> NaN \<longrightarrow>
            supplyIssued (apply_purchase tok a) = Some (fadd i a)"
    by (auto simp: a1 or_number_def truthy_num_def)
  have b2: "supplyIssued tok = None \<or> supplyIssued tok = Some NaN \<longrightarrow>
            supplyIssued (apply_purchase tok a) = Some (fadd (Fin 0) a)"
    by (auto simp: a1 or_number_def truthy_num_def)
  have c1: "dynamicPrice tok = Some p \<and> p \<noteq> Fin 0 \<and> p \<noteq> NaN \<longrightarrow>
            dynamicPrice (apply_purchase tok a) =
              Some (toFixed9 (fmul p (fadd (Fin 1) (fmul (rd (5 / 1000)) a))))"
    by (auto simp: a2 or_number_def truthy_num_def)
  have c2: "dynamicPrice tok = None \<or> dynamicPrice tok = Some (Fin 0) \<or>
          dynamicPrice tok = Some NaN \<longrightarrow>
            dynamicPrice (apply_purchase tok a) =
              Some (toFixed9 (fmul (rd (1 / 10)) (fadd (Fin 1) (fmul (rd (5 / 1000)) a))))"
    by (auto simp: a2 or_number_def truthy_num_def)
  have c3: "dynamicPrice tok = Some (Fin q) \<and> q \<noteq> 0 \<and> a = Fin n \<and>
          rd (5764607523034235 / 1152921504606846976 * n) = Fin m \<and> rd (1 + m) = Fin f \<longrightarrow>
            dynamicPrice (apply_purchase tok a) = Some (toFixed9 (rd (q * f)))"
  proof (intro impI, elim conjE)
    assume q: "dynamicPrice tok = Some (Fin q)" "q \<noteq> 0" and an: "a = Fin n"
      and m: "rd (5764607523034235 / 1152921504606846976 * n) = Fin m"
      and f: "rd (1 + m) = Fin f"
    have 1: "fmul (rd (5 / 1000)) a = Fin m"
      unfolding rd_price_samples(5) an fmul.simps by (rule m)
    have 2: "fadd (Fin 1) (Fin m) = Fin f" unfolding fadd.simps by (rule f)
    have 3: "or_number (dynamicPrice tok) (rd (1 / 10)) = Fin q"
      using q by (simp add: or_number_def truthy_num_def)
    have 4: "fmul (Fin q) (Fin f) = rd (q * f)" by simp
    show "dynamicPrice (apply_purchase tok a) = Some (toFixed9 (rd (q * f)))"
      unfolding a2 1 2 3 4 ..
  qed
  have g: "\<bar>x\<bar> < 10 ^ 21 \<longrightarrow>
            (\<exists>k::int. toFixed9 (Fin x) = rd (of_int k / 10 ^ 9) \<and>
               \<bar>of_int k / 10 ^ 9 - x\<bar> \<le> 1 / (2 * 10 ^ 9))"
    using toFixed9_grid [of x] by blast
  have t: "toFixed9 NaN = NaN" "toFixed9 PInf = PInf" "toFixed9 NInf = NInf"
    by (simp_all add: toFixed9_def)
  have fin: "tokens s (sl_tokenId sale) = Some tok \<longrightarrow>
            tokens (snd (finalize e saleId sale h s)) (sl_tokenId sale) =
              Some (apply_purchase tok (sl_amountTokens sale))"
    by (simp add: finalize_tokens)
  from a1 a2 b1 b2 c1 c2 c3 rd_price_samples(5) rd_tenth g t fin show ?thesis by blast
qed

theorem user_purchase_update_witness:
  "tk_type token_p \<noteq> ''listing'' \<and> supplyIssued token_p = Some (Fin 0) \<and>
   dynamicPrice token_p = Some (rd (1010025 / 10 ^ 7)) \<and>
   supplyIssued (apply_purchase token_p (Fin 1)) = Some (Fin 1) \<and>
   dynamicPrice (apply_purchase token_p (Fin 1)) =
     Some (Fin (3657193545748049 / 36028797018963968)) \<and>
   rd (101507512 / 10 ^ 9) = Fin (3657193545748049 / 36028797018963968) \<and>
   rd (101507513 / 10 ^ 9) = Fin (1828596790888423 / 18014398509481984) \<and>
   tk_type token_n \<noteq> ''listing'' \<and> dynamicPrice token_n = Some NaN \<and>
   dynamicPrice (apply_purchase token_n (Fin 1)) =
     Some (Fin (3620894100405879 / 36028797018963968)) \<and>
   rd (1005 / 10 ^ 4) = Fin (3620894100405879 / 36028797018963968) \<and>
   tk_type token_z \<noteq> ''listing'' \<and> supplyIssued token_z = Some (Fin 1) \<and>
   dynamicPrice token_z = Some (Fin 0) \<and>
   supplyIssued (apply_purchase token_z (Fin 4)) = Some (Fin 5) \<and>
   dynamicPrice (apply_purchase token_z (Fin 4)) =
     Some (Fin (7349874591868649 / 72057594037927936)) \<and>
   rd (102 / 1000) = Fin (7349874591868649 / 72057594037927936) \<and>
   tokens store_z (sl_tokenId sale_p) = Some token_z \<and>
   tokens (snd (finalize env0 ''s1'' sale_p (Some ''h1'') store_z)) (sl_tokenId sale_p) =
     Some (apply_purchase token_z (sl_amountTokens sale_p))"
proof -
  have p: "supplyIssued token_p = Some (Fin 0)" "dynamicPrice token_p = Some (rd (1010025 / 10 ^ 7))"
    by (simp_all add: token_p_def token_u_def)
  have n: "dynamicPrice token_n = Some NaN" by (simp add: token_n_def)
  have z: "supplyIssued token_z = Some (Fin 1)" "dynamicPrice token_z = Some (Fin 0)"
    by (simp_all add: token_z_val)
  note ip = user_purchase_update [OF token_types(3), where a = "Fin 1"]
  note i_n = user_purchase_update [OF token_types(4), where a = "Fin 1"]
  note iz = user_purchase_update [OF token_types(2), where a = "Fin 4" and s = store_z
      and sale = sale_p and e = env0 and saleId = "''s1''" and h = "Some ''h1''"]
  have tk: "tokens store_z (sl_tokenId sale_p) = Some token_z"
    by (simp add: store_z_def sale_p_def)
  have p1: "supplyIssued (apply_purchase token_p (Fin 1)) = Some (Fin 1)"
    using ip [THEN conjunct1] by (simp only: issued_samples)
  have p2: "dynamicPrice (apply_purchase token_p (Fin 1)) =
     Some (Fin (3657193545748049 / 36028797018963968))"
    using ip [THEN conjunct2, THEN conjunct1] by (simp only: price_samples)
  have n2: "dynamicPrice (apply_purchase token_n (Fin 1)) =
     Some (Fin (3620894100405879 / 36028797018963968))"
    using i_n [THEN conjunct2, THEN conjunct1] by (simp only: price_samples)
  have z1: "supplyIssued (apply_purchase token_z (Fin 4)) = Some (Fin 5)"
    using iz [THEN conjunct1] by (simp only: issued_samples)
  have z2: "dynamicPrice (apply_purchase token_z (Fin 4)) =
     Some (Fin (7349874591868649 / 72057594037927936))"
    using iz [THEN conjunct2, THEN conjunct1] by (simp only: price_samples)
  have z3: "tokens (snd (finalize env0 ''s1'' sale_p (Some ''h1'') store_z)) (sl_tokenId sale_p) =
     Some (apply_purchase token_z (sl_amountTokens sale_p))"
    using iz tk by blast
  from token_types p n z p1 p2 n2 z1 z2 z3 tk rd_price_samples show ?thesis by blast
qed

end
